theory Spec2Isabelle
  imports Main "HOL-Library.Word"
begin

section \<open>GstGLMemoryPBO: a shallow embedding of gstglmemorypbo.c\<close>

text \<open>
  The memory object of \<^verbatim>\<open>gst-libs/gst/gl/gstglmemorypbo.c\<close> is embedded as a record, the
  OpenGL commands it issues and the calls it makes into its collaborators as a trace of
  events, and every function of the file as a HOL function that passes the object and the
  trace along. A NULL pointer is \<open>None\<close> (or the constructor \<open>NULL\<close> of \<open>gpointer\<close>), a
  dereference of NULL is an error value.
\<close>

subsection \<open>Graphics context and capability macros\<close>

text \<open>The bits of the \<^verbatim>\<open>GstGLAPI\<close> mask; a mask is the set of its bits.\<close>

datatype GstGLAPI = GST_GL_API_OPENGL | GST_GL_API_OPENGL3 | GST_GL_API_GLES1 | GST_GL_API_GLES2

text \<open>
  What this file reads of a \<^verbatim>\<open>GstGLContext\<close>: the API mask and version it was created
  with, and whether the entries \<^verbatim>\<open>GenFramebuffers\<close> and \<^verbatim>\<open>GenBuffers\<close> of its function table
  are non-NULL.
\<close>

record GstGLContext =
  gl_api :: "GstGLAPI set"
  gl_major :: int
  gl_minor :: int
  has_GenFramebuffers :: bool
  has_GenBuffers :: bool

text \<open>
  Modelled from the spec: \<^verbatim>\<open>gst_gl_context_check_gl_version\<close> is defined in gstglcontext.c,
  which is not among the sources. The spec describes it as the capability query "API family
  + version \<rightarrow> boolean": the context's API mask meets the requested one and the context's
  version is at least the requested \<open>maj.min\<close>.
\<close>

definition gst_gl_context_check_gl_version ::
    "GstGLContext \<Rightarrow> GstGLAPI set \<Rightarrow> int \<Rightarrow> int \<Rightarrow> bool" where
  "gst_gl_context_check_gl_version ctx api maj mnr =
     (if maj > gl_major ctx then False
      else if gl_api ctx \<inter> api = {} then False
      else if maj < gl_major ctx then True
      else if mnr > gl_minor ctx then False
      else True)"

definition USING_OPENGL :: "GstGLContext \<Rightarrow> bool" where
  "USING_OPENGL ctx = gst_gl_context_check_gl_version ctx {GST_GL_API_OPENGL} 1 0"

definition USING_OPENGL3 :: "GstGLContext \<Rightarrow> bool" where
  "USING_OPENGL3 ctx = gst_gl_context_check_gl_version ctx {GST_GL_API_OPENGL3} 3 1"

definition USING_GLES :: "GstGLContext \<Rightarrow> bool" where
  "USING_GLES ctx = gst_gl_context_check_gl_version ctx {GST_GL_API_GLES1} 1 0"

definition USING_GLES2 :: "GstGLContext \<Rightarrow> bool" where
  "USING_GLES2 ctx = gst_gl_context_check_gl_version ctx {GST_GL_API_GLES2} 2 0"

definition USING_GLES3 :: "GstGLContext \<Rightarrow> bool" where
  "USING_GLES3 ctx = gst_gl_context_check_gl_version ctx {GST_GL_API_GLES2} 3 0"

definition CONTEXT_SUPPORTS_PBO_UPLOAD :: "GstGLContext \<Rightarrow> bool" where
  "CONTEXT_SUPPORTS_PBO_UPLOAD ctx =
     (gst_gl_context_check_gl_version ctx {GST_GL_API_OPENGL, GST_GL_API_OPENGL3} 2 1
      \<or> gst_gl_context_check_gl_version ctx {GST_GL_API_GLES2} 3 0)"

definition CONTEXT_SUPPORTS_PBO_DOWNLOAD :: "GstGLContext \<Rightarrow> bool" where
  "CONTEXT_SUPPORTS_PBO_DOWNLOAD ctx =
     gst_gl_context_check_gl_version ctx
       {GST_GL_API_OPENGL, GST_GL_API_OPENGL3, GST_GL_API_GLES2} 3 0"

subsection \<open>OpenGL enumerants\<close>

text \<open>
  The values the file defines itself (\<^verbatim>\<open>GL_PIXEL_PACK_BUFFER\<close> ... \<^verbatim>\<open>GL_TEXTURE_EXTERNAL_OES\<close>)
  and the ones it takes from the OpenGL headers.
\<close>

abbreviation GL_PIXEL_PACK_BUFFER :: nat where "GL_PIXEL_PACK_BUFFER \<equiv> 0x88EB"
abbreviation GL_PIXEL_UNPACK_BUFFER :: nat where "GL_PIXEL_UNPACK_BUFFER \<equiv> 0x88EC"
abbreviation GL_STREAM_DRAW :: nat where "GL_STREAM_DRAW \<equiv> 0x88E0"
abbreviation GL_UNPACK_ROW_LENGTH :: nat where "GL_UNPACK_ROW_LENGTH \<equiv> 0x0CF2"
abbreviation GL_UNPACK_ALIGNMENT :: nat where "GL_UNPACK_ALIGNMENT \<equiv> 0x0CF5"
abbreviation GL_TEXTURE_2D :: nat where "GL_TEXTURE_2D \<equiv> 0x0DE1"
abbreviation GL_TEXTURE_RECTANGLE :: nat where "GL_TEXTURE_RECTANGLE \<equiv> 0x84F5"
abbreviation GL_TEXTURE_EXTERNAL_OES :: nat where "GL_TEXTURE_EXTERNAL_OES \<equiv> 0x8D65"
abbreviation GL_UNSIGNED_BYTE :: nat where "GL_UNSIGNED_BYTE \<equiv> 0x1401"
abbreviation GL_UNSIGNED_SHORT_5_6_5 :: nat where "GL_UNSIGNED_SHORT_5_6_5 \<equiv> 0x8363"
abbreviation GL_RGBA :: nat where "GL_RGBA \<equiv> 0x1908"
abbreviation GL_FRAMEBUFFER :: nat where "GL_FRAMEBUFFER \<equiv> 0x8D40"
abbreviation GL_COLOR_ATTACHMENT0 :: nat where "GL_COLOR_ATTACHMENT0 \<equiv> 0x8CE0"
abbreviation GL_TEXTURE_MAG_FILTER :: nat where "GL_TEXTURE_MAG_FILTER \<equiv> 0x2800"
abbreviation GL_TEXTURE_MIN_FILTER :: nat where "GL_TEXTURE_MIN_FILTER \<equiv> 0x2801"
abbreviation GL_TEXTURE_WRAP_S :: nat where "GL_TEXTURE_WRAP_S \<equiv> 0x2802"
abbreviation GL_TEXTURE_WRAP_T :: nat where "GL_TEXTURE_WRAP_T \<equiv> 0x2803"
abbreviation GL_LINEAR :: nat where "GL_LINEAR \<equiv> 0x2601"
abbreviation GL_CLAMP_TO_EDGE :: nat where "GL_CLAMP_TO_EDGE \<equiv> 0x812F"

subsection \<open>Data model\<close>

type_synonym guint = "32 word"
type_synonym gsize = "64 word"
type_synonym gssize = "64 word"

datatype GstGLTextureTarget =
    GST_GL_TEXTURE_TARGET_NONE
  | GST_GL_TEXTURE_TARGET_2D
  | GST_GL_TEXTURE_TARGET_RECTANGLE
  | GST_GL_TEXTURE_TARGET_EXTERNAL_OES

datatype GstVideoGLTextureType =
    GST_VIDEO_GL_TEXTURE_TYPE_LUMINANCE
  | GST_VIDEO_GL_TEXTURE_TYPE_LUMINANCE_ALPHA
  | GST_VIDEO_GL_TEXTURE_TYPE_RGB16
  | GST_VIDEO_GL_TEXTURE_TYPE_RGB
  | GST_VIDEO_GL_TEXTURE_TYPE_RGBA
  | GST_VIDEO_GL_TEXTURE_TYPE_R
  | GST_VIDEO_GL_TEXTURE_TYPE_RG

text \<open>The two transfer flags kept in the mini-object flags of a memory.\<close>

datatype transfer_flag =
    GST_GL_BASE_MEMORY_TRANSFER_NEED_DOWNLOAD
  | GST_GL_BASE_MEMORY_TRANSFER_NEED_UPLOAD

datatype GstMapFlags = GST_MAP_READ | GST_MAP_WRITE | GST_MAP_GL

text \<open>
  A \<^verbatim>\<open>gpointer\<close> handed out by a mapping: NULL, the address of the object's texture id
  (shown with the id stored there), or an address of CPU-visible bytes.
\<close>

datatype gpointer = NULL | TexIdRef nat | DataPtr nat

text \<open>
  What the accessor macros of \<^verbatim>\<open>GstVideoInfo\<close> give: \<^verbatim>\<open>GST_VIDEO_INFO_IS_YUV\<close>,
  \<^verbatim>\<open>GST_VIDEO_INFO_WIDTH\<close>, \<^verbatim>\<open>GST_VIDEO_INFO_HEIGHT\<close> (both \<^verbatim>\<open>gint\<close>), and per plane or
  component \<^verbatim>\<open>GST_VIDEO_INFO_COMP_WIDTH\<close>, \<^verbatim>\<open>GST_VIDEO_INFO_COMP_HEIGHT\<close> and
  \<^verbatim>\<open>GST_VIDEO_INFO_PLANE_STRIDE\<close> (\<^verbatim>\<open>gint\<close>). 32-bit values are kept as bit patterns.
\<close>

record GstVideoInfo =
  vi_is_yuv :: bool
  vi_width :: guint
  vi_height :: guint
  vi_comp_width :: "nat \<Rightarrow> guint"
  vi_comp_height :: "nat \<Rightarrow> guint"
  vi_plane_stride :: "nat \<Rightarrow> guint"

text \<open>The staging buffer, a \<^verbatim>\<open>GstGLBuffer\<close>: \<^verbatim>\<open>id\<close>, \<^verbatim>\<open>target\<close>, \<^verbatim>\<open>mem.data\<close>, flags, size.\<close>

record GstGLBuffer =
  buf_id :: nat
  buf_target :: nat
  buf_data :: gpointer
  buf_flags :: "transfer_flag set"
  buf_size :: gsize

text \<open>
  \<^verbatim>\<open>GstGLMemoryPBO\<close> with the nested structs flattened: \<open>mem_*\<close> are the fields of the
  \<^verbatim>\<open>GstMemory\<close> and \<^verbatim>\<open>GstGLBaseMemory\<close> parts (\<open>mem_flags\<close> the mini-object flags), the others
  those of \<^verbatim>\<open>GstGLMemory\<close>, and \<open>pbo\<close> the staging buffer pointer (\<open>None\<close> is NULL).
  Pointers that are only stored (alignment descriptor, notify, user data) are addresses.
\<close>

record GstGLMemoryPBO =
  mem_flags :: "transfer_flag set"
  mem_size :: gsize
  mem_offset :: gsize
  mem_align :: gsize
  mem_context :: GstGLContext
  mem_notify :: nat
  mem_user_data :: nat
  tex_id :: nat
  tex_target :: GstGLTextureTarget
  tex_type :: GstVideoGLTextureType
  tex_width :: guint
  unpack_length :: guint
  texture_wrapped :: bool
  info :: GstVideoInfo
  plane :: nat
  valign :: nat
  pbo :: "GstGLBuffer option"

text \<open>The part of a \<^verbatim>\<open>GstMapInfo\<close> the file uses: the flags and \<^verbatim>\<open>user_data[0]\<close>, where a CPU
  mapping keeps the data pointer of the staging buffer's own mapping (\<open>None\<close> is NULL).\<close>

record GstMapInfo =
  map_flags :: "GstMapFlags set"
  map_user_data0 :: "gpointer option"

subsection \<open>Effects: the trace of OpenGL commands and collaborator calls\<close>

text \<open>
  One event per command issued through the function table \<^verbatim>\<open>gl->...\<close> (level and offsets,
  always 0, are left out) and one per call into code outside this file.
\<close>

datatype event =
    PixelStorei nat int
  | BindBuffer nat nat
  | BindTexture nat nat
  | TexSubImage2D nat guint guint nat nat gsize
  | GenTextures nat
  | TexImage2D nat nat guint guint nat nat
  | TexParameteri nat nat nat
  | GenFramebuffers nat
  | BindFramebuffer nat nat
  | FramebufferTexture2D nat nat nat nat
  | DeleteFramebuffers nat
  | DeleteTextures nat
  | Call_memory_map nat "GstMapFlags set"
  | Call_memory_unmap nat
  | Call_memory_unref nat
  | Call_read_pixels nat gsize
  | Call_alloc_data
  | Call_parent_map "GstMapFlags set"
  | Call_parent_create
  | Call_parent_destroy
  | Call_buffer_alloc nat nat gsize
  | Call_copy_teximage nat GstGLTextureTarget GstVideoGLTextureType guint guint
  | Call_fallback_mem_copy gssize gssize
  | Call_base_memory_memcpy gssize gssize
  | Call_copy_into nat GstGLTextureTarget GstVideoGLTextureType guint guint

text \<open>
  The state the commands act on: the trace so far, the two pixel-store parameters the file
  sets (defaults 0 and 4), and the error message of the context.
\<close>

record world =
  trace :: "event list"
  unpack_row_length :: int
  unpack_alignment :: int
  context_error :: "string option"

definition emit :: "event \<Rightarrow> world \<Rightarrow> world" where
  "emit e w = w\<lparr>trace := trace w @ [e]\<rparr>"

definition glPixelStorei :: "nat \<Rightarrow> int \<Rightarrow> world \<Rightarrow> world" where
  "glPixelStorei pname v w =
     emit (PixelStorei pname v)
       (if pname = GL_UNPACK_ROW_LENGTH then w\<lparr>unpack_row_length := v\<rparr>
        else if pname = GL_UNPACK_ALIGNMENT then w\<lparr>unpack_alignment := v\<rparr>
        else w)"

definition gst_gl_context_set_error :: "string \<Rightarrow> world \<Rightarrow> world" where
  "gst_gl_context_set_error msg w = w\<lparr>context_error := Some msg\<rparr>"

text \<open>
  The collaborators the file calls and that are not part of it, as parameters: the pure
  helpers as functions, the calls whose outcome depends on the driver as functions of the
  trace at the moment of the call.
  \<^item> \<open>memory_map_result\<close>: \<^verbatim>\<open>gst_memory_map\<close> on a buffer or memory; \<open>None\<close> when it returns
    FALSE, else the data pointer of the mapping;
  \<^item> \<open>read_pixels_ok\<close>: \<^verbatim>\<open>gst_gl_memory_read_pixels\<close>;
  \<^item> \<open>parent_map_result\<close>: the \<^verbatim>\<open>map\<close> of the parent allocator class;
  \<^item> \<open>parent_create_result\<close>: the \<^verbatim>\<open>create\<close> of the parent allocator class; \<open>None\<close> when it
    fails, else the texture name it made;
  \<^item> \<open>gen_name\<close>: the name written by \<^verbatim>\<open>GenTextures\<close>, \<^verbatim>\<open>GenFramebuffers\<close> or
    \<^verbatim>\<open>gst_gl_buffer_alloc\<close>;
  \<^item> \<open>fallback_mem_copy_result\<close>, \<open>base_memory_memcpy_ok\<close>, \<open>copy_into_ok\<close>: the results of
    \<^verbatim>\<open>fallback_mem_copy\<close>, \<^verbatim>\<open>gst_gl_base_memory_memcpy\<close> and \<^verbatim>\<open>gst_gl_memory_copy_into\<close>;
  \<^item> \<open>plane_data_size\<close>, \<open>plane_tex_type\<close>, \<open>plane_tex_width\<close>, \<open>plane_unpack_length\<close>: the
    geometry \<^verbatim>\<open>gst_gl_memory_init\<close> derives from the video info.
\<close>

record collaborators =
  gst_gl_format_from_gl_texture_type :: "GstVideoGLTextureType \<Rightarrow> nat"
  gst_gl_texture_target_to_gl :: "GstGLTextureTarget \<Rightarrow> nat"
  gst_gl_sized_gl_format_from_gl_format_type :: "GstGLContext \<Rightarrow> nat \<Rightarrow> nat \<Rightarrow> nat"
  gst_gl_get_plane_start :: "GstVideoInfo \<Rightarrow> nat \<Rightarrow> nat \<Rightarrow> gsize"
  memory_map_result :: "event list \<Rightarrow> gpointer option"
  read_pixels_ok :: "event list \<Rightarrow> bool"
  parent_map_result :: "event list \<Rightarrow> gpointer"
  parent_create_result :: "event list \<Rightarrow> nat option"
  gen_name :: "event list \<Rightarrow> nat"
  fallback_mem_copy_result :: "event list \<Rightarrow> gpointer"
  base_memory_memcpy_ok :: "event list \<Rightarrow> bool"
  copy_into_ok :: "event list \<Rightarrow> bool"
  plane_data_size :: "GstVideoInfo \<Rightarrow> nat \<Rightarrow> nat \<Rightarrow> gsize"
  plane_tex_type :: "GstGLContext \<Rightarrow> GstVideoInfo \<Rightarrow> nat \<Rightarrow> GstVideoGLTextureType"
  plane_tex_width :: "GstVideoInfo \<Rightarrow> nat \<Rightarrow> guint"
  plane_unpack_length :: "GstVideoInfo \<Rightarrow> nat \<Rightarrow> guint"

text \<open>\<^verbatim>\<open>gst_memory_map\<close> and \<^verbatim>\<open>gst_memory_unmap\<close> on the staging buffer.\<close>

definition gst_memory_map ::
    "collaborators \<Rightarrow> GstGLBuffer \<Rightarrow> GstMapFlags set \<Rightarrow> world \<Rightarrow> gpointer option \<times> world" where
  "gst_memory_map env b fl w =
     (memory_map_result env (trace w), emit (Call_memory_map (buf_id b) fl) w)"

definition gst_memory_unmap :: "GstGLBuffer \<Rightarrow> world \<Rightarrow> world" where
  "gst_memory_unmap b w = emit (Call_memory_unmap (buf_id b)) w"

subsection \<open>Plane geometry\<close>

definition get_plane_width :: "GstVideoInfo \<Rightarrow> nat \<Rightarrow> guint" where
  "get_plane_width vinfo pl =
     (if vi_is_yuv vinfo then vi_comp_width vinfo pl else vi_width vinfo)"

definition get_plane_height :: "GstVideoInfo \<Rightarrow> nat \<Rightarrow> guint" where
  "get_plane_height vinfo pl =
     (if vi_is_yuv vinfo then vi_comp_height vinfo pl else vi_height vinfo)"

definition GL_MEM_WIDTH :: "GstGLMemoryPBO \<Rightarrow> guint" where
  "GL_MEM_WIDTH gl_mem = get_plane_width (info gl_mem) (plane gl_mem)"

definition GL_MEM_HEIGHT :: "GstGLMemoryPBO \<Rightarrow> guint" where
  "GL_MEM_HEIGHT gl_mem = get_plane_height (info gl_mem) (plane gl_mem)"

definition GL_MEM_STRIDE :: "GstGLMemoryPBO \<Rightarrow> guint" where
  "GL_MEM_STRIDE gl_mem = vi_plane_stride (info gl_mem) (plane gl_mem)"

subsection \<open>Upload from the staging buffer\<close>

text \<open>
  \<^verbatim>\<open>_upload_pbo_memory\<close>. The buffer id is read through the GL mapping of the staging
  buffer (\<^verbatim>\<open>*(guint *) pbo_info->data\<close>), which points at the buffer's \<^verbatim>\<open>id\<close>.
  \<^verbatim>\<open>g_return_if_fail\<close> returns when its condition is false. The \<^verbatim>\<open>guint\<close> field
  \<^verbatim>\<open>unpack_length\<close> reaches \<^verbatim>\<open>PixelStorei\<close> through its \<^verbatim>\<open>GLint\<close> parameter, so the value
  set is the field read as a signed 32-bit number.
\<close>

definition upload_pbo_memory ::
    "collaborators \<Rightarrow> GstGLMemoryPBO \<Rightarrow> GstGLBuffer \<Rightarrow> world \<Rightarrow> world" where
  "upload_pbo_memory env gl_mem pbo_buf w =
     (let ctx = mem_context gl_mem in
      if GST_GL_BASE_MEMORY_TRANSFER_NEED_UPLOAD \<notin> mem_flags gl_mem then w
      else if \<not> CONTEXT_SUPPORTS_PBO_UPLOAD ctx then w
      else
        let pbo_id = buf_id pbo_buf;
            gl_type = (if tex_type gl_mem = GST_VIDEO_GL_TEXTURE_TYPE_RGB16
                       then GL_UNSIGNED_SHORT_5_6_5 else GL_UNSIGNED_BYTE);
            gl_format = gst_gl_format_from_gl_texture_type env (tex_type gl_mem);
            gl_target = gst_gl_texture_target_to_gl env (tex_target gl_mem);
            w1 = (if USING_OPENGL ctx \<or> USING_GLES3 ctx \<or> USING_OPENGL3 ctx
                  then glPixelStorei GL_UNPACK_ROW_LENGTH (sint (unpack_length gl_mem)) w
                  else if USING_GLES2 ctx
                  then glPixelStorei GL_UNPACK_ALIGNMENT (sint (unpack_length gl_mem)) w
                  else w);
            plane_start = gst_gl_get_plane_start env (info gl_mem) (valign gl_mem) (plane gl_mem)
                            + mem_offset gl_mem;
            w2 = emit (BindBuffer GL_PIXEL_UNPACK_BUFFER pbo_id) w1;
            w3 = emit (BindTexture gl_target (tex_id gl_mem)) w2;
            w4 = emit (TexSubImage2D gl_target (tex_width gl_mem) (GL_MEM_HEIGHT gl_mem)
                         gl_format gl_type plane_start) w3;
            w5 = emit (BindBuffer GL_PIXEL_UNPACK_BUFFER 0) w4;
            w6 = emit (BindTexture gl_target 0) w5
        in if USING_OPENGL ctx \<or> USING_GLES3 ctx
           then glPixelStorei GL_UNPACK_ROW_LENGTH 0 w6
           else if USING_GLES2 ctx
           then glPixelStorei GL_UNPACK_ALIGNMENT 4 w6
           else w6)"

subsection \<open>Texture and staging buffer creation\<close>

text \<open>\<^verbatim>\<open>_new_texture\<close>: the name is the one \<^verbatim>\<open>GenTextures\<close> writes.\<close>

definition new_texture ::
    "collaborators \<Rightarrow> nat \<Rightarrow> nat \<Rightarrow> nat \<Rightarrow> nat \<Rightarrow> guint \<Rightarrow> guint \<Rightarrow> world \<Rightarrow> nat \<times> world" where
  "new_texture env target internal_format format type width height w =
     (let new_id = gen_name env (trace w);
          w1 = emit (GenTextures new_id) w;
          w2 = emit (BindTexture target new_id) w1;
          w3 = (if target = GL_TEXTURE_2D \<or> target = GL_TEXTURE_RECTANGLE
                then emit (TexImage2D target internal_format width height format type) w2
                else w2);
          w4 = emit (TexParameteri target GL_TEXTURE_MAG_FILTER GL_LINEAR) w3;
          w5 = emit (TexParameteri target GL_TEXTURE_MIN_FILTER GL_LINEAR) w4;
          w6 = emit (TexParameteri target GL_TEXTURE_WRAP_S GL_CLAMP_TO_EDGE) w5;
          w7 = emit (TexParameteri target GL_TEXTURE_WRAP_T GL_CLAMP_TO_EDGE) w6;
          w8 = emit (BindTexture target 0) w7
      in (new_id, w8))"

text \<open>
  Modelled from the spec: the \<^verbatim>\<open>create\<close> of the parent allocator class, which
  \<^verbatim>\<open>_gl_mem_create\<close> calls first, is not among the sources. From the spec: allocate "creates
  an uninitialized texture of the declared size", a wrapped handle is the caller's and is
  kept, and a refusal of the driver (\<open>AllocationFailure\<close>) fails the creation.
\<close>

definition parent_create ::
    "collaborators \<Rightarrow> GstGLMemoryPBO \<Rightarrow> world \<Rightarrow> bool \<times> GstGLMemoryPBO \<times> world" where
  "parent_create env gl_mem w =
     (let w1 = emit Call_parent_create w in
      if texture_wrapped gl_mem then (True, gl_mem, w1)
      else case parent_create_result env (trace w) of
             None \<Rightarrow> (False, gl_mem, w1)
           | Some t \<Rightarrow> (True, gl_mem\<lparr>tex_id := t\<rparr>, w1))"

text \<open>
  \<^verbatim>\<open>gst_gl_buffer_alloc\<close>: the source dereferences its result at once
  (\<^verbatim>\<open>gl_mem->pbo->id\<close>), so it is a buffer; zeroed but for id, target and size.
\<close>

definition gst_gl_buffer_alloc ::
    "collaborators \<Rightarrow> nat \<Rightarrow> nat \<Rightarrow> gsize \<Rightarrow> world \<Rightarrow> GstGLBuffer \<times> world" where
  "gst_gl_buffer_alloc env target usage sz w =
     (\<lparr>buf_id = gen_name env (trace w), buf_target = target, buf_data = NULL,
       buf_flags = {}, buf_size = sz\<rparr>,
      emit (Call_buffer_alloc target usage sz) w)"

text \<open>\<^verbatim>\<open>_gl_mem_create\<close>.\<close>

definition gl_mem_create ::
    "collaborators \<Rightarrow> GstGLMemoryPBO \<Rightarrow> world \<Rightarrow> bool \<times> GstGLMemoryPBO \<times> world" where
  "gl_mem_create env gl_mem w =
     (let ctx = mem_context gl_mem;
          (ok, m1, w1) = parent_create env gl_mem w
      in if \<not> ok then (False, m1, w1)
         else if USING_OPENGL ctx \<or> USING_OPENGL3 ctx \<or> USING_GLES3 ctx
         then (let (b, w2) = gst_gl_buffer_alloc env GL_PIXEL_UNPACK_BUFFER GL_STREAM_DRAW
                               (mem_size m1) w1
               in (True, m1\<lparr>pbo := Some b\<rparr>, w2))
         else (True, m1, w1))"

text \<open>
  Modelled from the spec: \<^verbatim>\<open>gst_gl_memory_init\<close> (gstglmemory.c) is not among the sources.
  From the spec: the object holds the context, the target, the plane index and the geometry
  "derived from an immutable video-geometry descriptor plus an alignment/padding
  descriptor"; it starts with "no dirty flags set"; and the staging buffer is made "at GPU
  Memory Object construction", that is by the allocator's create hook \<^verbatim>\<open>_gl_mem_create\<close>,
  whose failure leaves the object as it is. The handle and the wrapped mark set before the
  call are kept. The allocator and parent arguments, which this file only passes on, are
  left out here and below; \<open>params\<close> is the alignment of the allocation parameters
  (\<open>None\<close> for NULL).
\<close>

definition gst_gl_memory_init ::
    "collaborators \<Rightarrow> GstGLMemoryPBO \<Rightarrow> GstGLContext \<Rightarrow> GstGLTextureTarget \<Rightarrow> gsize option \<Rightarrow>
     GstVideoInfo \<Rightarrow> nat \<Rightarrow> nat \<Rightarrow> nat \<Rightarrow> nat \<Rightarrow> world \<Rightarrow> GstGLMemoryPBO \<times> world" where
  "gst_gl_memory_init env mem ctx target params vinfo pl va notify user_data w =
     (let m = mem\<lparr>mem_flags := {},
                   mem_size := plane_data_size env vinfo va pl,
                   mem_offset := 0,
                   mem_align := (case params of None \<Rightarrow> 0 | Some a \<Rightarrow> a),
                   mem_context := ctx,
                   mem_notify := notify,
                   mem_user_data := user_data,
                   tex_target := target,
                   tex_type := plane_tex_type env ctx vinfo pl,
                   tex_width := plane_tex_width env vinfo pl,
                   unpack_length := plane_unpack_length env vinfo pl,
                   info := vinfo,
                   plane := pl,
                   valign := va\<rparr>;
          (ok, m', w') = gl_mem_create env m w
      in (m', w'))"

text \<open>\<^verbatim>\<open>_gl_mem_init\<close>: parameters in the order (plane, valign, notify, user_data).\<close>

definition gl_mem_init ::
    "collaborators \<Rightarrow> GstGLMemoryPBO \<Rightarrow> GstGLContext \<Rightarrow> GstGLTextureTarget \<Rightarrow> gsize option \<Rightarrow>
     GstVideoInfo \<Rightarrow> nat \<Rightarrow> nat \<Rightarrow> nat \<Rightarrow> nat \<Rightarrow> world \<Rightarrow> GstGLMemoryPBO \<times> world" where
  "gl_mem_init env mem ctx target params vinfo pl va notify user_data w =
     gst_gl_memory_init env mem ctx target params vinfo pl va notify user_data w"

text \<open>
  The zeroed struct of \<^verbatim>\<open>g_slice_new0\<close> and \<^verbatim>\<open>g_new0\<close>. The context pointer is NULL there;
  the record holds an empty context in its place, which the initialisation overwrites
  before anything reads it.
\<close>

definition zeroed_GstGLMemoryPBO :: GstGLMemoryPBO where
  "zeroed_GstGLMemoryPBO =
     \<lparr>mem_flags = {}, mem_size = 0, mem_offset = 0, mem_align = 0,
      mem_context = \<lparr>gl_api = {}, gl_major = 0, gl_minor = 0,
                     has_GenFramebuffers = False, has_GenBuffers = False\<rparr>,
      mem_notify = 0, mem_user_data = 0, tex_id = 0,
      tex_target = GST_GL_TEXTURE_TARGET_NONE,
      tex_type = GST_VIDEO_GL_TEXTURE_TYPE_LUMINANCE,
      tex_width = 0, unpack_length = 0, texture_wrapped = False,
      info = \<lparr>vi_is_yuv = False, vi_width = 0, vi_height = 0,
              vi_comp_width = (\<lambda>_. 0), vi_comp_height = (\<lambda>_. 0),
              vi_plane_stride = (\<lambda>_. 0)\<rparr>,
      plane = 0, valign = 0, pbo = None\<rparr>"

text \<open>\<^verbatim>\<open>_gl_mem_new\<close>.\<close>

definition gl_mem_new ::
    "collaborators \<Rightarrow> GstGLContext \<Rightarrow> GstGLTextureTarget \<Rightarrow> gsize option \<Rightarrow>
     GstVideoInfo \<Rightarrow> nat \<Rightarrow> nat \<Rightarrow> nat \<Rightarrow> nat \<Rightarrow> world \<Rightarrow> GstGLMemoryPBO \<times> world" where
  "gl_mem_new env ctx target params vinfo pl va notify user_data w =
     (let mem = zeroed_GstGLMemoryPBO\<lparr>texture_wrapped := False\<rparr>
      in gl_mem_init env mem ctx target params vinfo pl va notify user_data w)"

subsection \<open>Download into the staging buffer\<close>

text \<open>\<^verbatim>\<open>_read_pixels_to_pbo\<close>.\<close>

definition read_pixels_to_pbo ::
    "collaborators \<Rightarrow> GstGLMemoryPBO \<Rightarrow> world \<Rightarrow> bool \<times> GstGLMemoryPBO \<times> world" where
  "read_pixels_to_pbo env gl_mem w =
     (case pbo gl_mem of
        None \<Rightarrow> (False, gl_mem, w)
      | Some b \<Rightarrow>
          if \<not> CONTEXT_SUPPORTS_PBO_DOWNLOAD (mem_context gl_mem)
             \<or> tex_type gl_mem = GST_VIDEO_GL_TEXTURE_TYPE_LUMINANCE
             \<or> tex_type gl_mem = GST_VIDEO_GL_TEXTURE_TYPE_LUMINANCE_ALPHA
          then (False, gl_mem, w)
          else if GST_GL_BASE_MEMORY_TRANSFER_NEED_DOWNLOAD \<in> mem_flags gl_mem
          then
            (let plane_start =
                   gst_gl_get_plane_start env (info gl_mem) (valign gl_mem) (plane gl_mem)
                     + mem_offset gl_mem;
                 b1 = b\<lparr>buf_target := GL_PIXEL_PACK_BUFFER\<rparr>;
                 m1 = gl_mem\<lparr>pbo := Some b1\<rparr>;
                 (r, w1) = gst_memory_map env b1 {GST_MAP_WRITE, GST_MAP_GL} w
             in case r of
                  None \<Rightarrow> (False, m1, w1)
                | Some _ \<Rightarrow>
                    (let ok = read_pixels_ok env (trace w1);
                         w2 = emit (Call_read_pixels (tex_id m1) plane_start) w1;
                         w3 = gst_memory_unmap b1 w2
                     in (ok, m1, w3)))
          else (True, gl_mem, w))"

text \<open>
  \<^verbatim>\<open>_pbo_download_transfer\<close>. Its only caller has checked \<^verbatim>\<open>gl_mem->pbo\<close>; \<open>b\<close> is that
  buffer. When \<^verbatim>\<open>_read_pixels_to_pbo\<close> fails the function returns with the buffer's write
  mapping still in place, as the source does.
\<close>

definition pbo_download_transfer ::
    "collaborators \<Rightarrow> GstGLMemoryPBO \<Rightarrow> GstGLBuffer \<Rightarrow> GstMapInfo \<Rightarrow> world \<Rightarrow>
     gpointer \<times> GstGLMemoryPBO \<times> GstMapInfo \<times> world" where
  "pbo_download_transfer env gl_mem b minfo w =
     (let b1 = b\<lparr>buf_target := GL_PIXEL_PACK_BUFFER\<rparr>;
          m1 = gl_mem\<lparr>pbo := Some b1\<rparr>;
          (failed, m2, w2) =
            (if GST_MAP_READ \<in> map_flags minfo
                \<and> GST_GL_BASE_MEMORY_TRANSFER_NEED_DOWNLOAD \<in> mem_flags m1
             then
               (let (r, wa) = gst_memory_map env b1 {GST_MAP_WRITE, GST_MAP_GL} w
                in case r of
                     None \<Rightarrow> (True, m1, wa)
                   | Some _ \<Rightarrow>
                       (let (ok, mb, wb) = read_pixels_to_pbo env m1 wa
                        in if \<not> ok then (True, mb, wb)
                           else (False, mb, gst_memory_unmap b1 wb)))
             else (False, m1, w))
      in if failed then (NULL, m2, minfo, w2)
         else
           (let b2 = (case pbo m2 of None \<Rightarrow> b1 | Some bb \<Rightarrow> bb);
                (r, w3) = gst_memory_map env b2 (map_flags minfo) w2
            in case r of
                 None \<Rightarrow> (NULL, m2, minfo, w3)
               | Some d \<Rightarrow> (d, m2, minfo\<lparr>map_user_data0 := Some d\<rparr>, w3)))"

subsection \<open>The mapping protocol\<close>

text \<open>The \<^verbatim>\<open>map\<close> of the parent allocator class, a collaborator. The size argument of the
  map functions, which this file only hands on to it, is left out.\<close>

definition parent_map ::
    "collaborators \<Rightarrow> GstGLMemoryPBO \<Rightarrow> GstMapInfo \<Rightarrow> world \<Rightarrow> gpointer \<times> world" where
  "parent_map env gl_mem minfo w =
     (parent_map_result env (trace w), emit (Call_parent_map (map_flags minfo)) w)"

text \<open>\<^verbatim>\<open>_gl_mem_map_cpu_access\<close>.\<close>

definition gl_mem_map_cpu_access ::
    "collaborators \<Rightarrow> GstGLMemoryPBO \<Rightarrow> GstMapInfo \<Rightarrow> world \<Rightarrow>
     gpointer \<times> GstGLMemoryPBO \<times> GstMapInfo \<times> world" where
  "gl_mem_map_cpu_access env gl_mem minfo w =
     (let w0 = emit Call_alloc_data w;
          (data, m1, i1, w1) =
            (case pbo gl_mem of
               Some b \<Rightarrow>
                 if CONTEXT_SUPPORTS_PBO_DOWNLOAD (mem_context gl_mem)
                 then pbo_download_transfer env gl_mem b minfo w0
                 else (NULL, gl_mem, minfo, w0)
             | None \<Rightarrow> (NULL, gl_mem, minfo, w0))
      in if data = NULL
         then (let (d, w2) = parent_map env m1 i1 w1 in (d, m1, i1, w2))
         else (data, m1, i1, w1))"

text \<open>\<^verbatim>\<open>_gl_mem_map_gpu_access\<close>.\<close>

definition gl_mem_map_gpu_access ::
    "collaborators \<Rightarrow> GstGLMemoryPBO \<Rightarrow> GstMapInfo \<Rightarrow> world \<Rightarrow>
     gpointer \<times> GstGLMemoryPBO \<times> GstMapInfo \<times> world" where
  "gl_mem_map_gpu_access env gl_mem minfo w =
     (let data = TexIdRef (tex_id gl_mem) in
      if GST_MAP_READ \<in> map_flags minfo
      then
        (case pbo gl_mem of
           Some b \<Rightarrow>
             if CONTEXT_SUPPORTS_PBO_UPLOAD (mem_context gl_mem)
             then
               (let (r, w1) = gst_memory_map env b {GST_MAP_READ, GST_MAP_GL} w
                in case r of
                     None \<Rightarrow> (NULL, gl_mem, minfo, w1)
                   | Some _ \<Rightarrow>
                       (let w2 = upload_pbo_memory env gl_mem b w1;
                            w3 = gst_memory_unmap b w2
                        in (data, gl_mem, minfo, w3)))
             else (let (d, w1) = parent_map env gl_mem minfo w in (d, gl_mem, minfo, w1))
         | None \<Rightarrow> (let (d, w1) = parent_map env gl_mem minfo w in (d, gl_mem, minfo, w1)))
      else (data, gl_mem, minfo, w))"

text \<open>\<^verbatim>\<open>_gl_mem_map\<close>.\<close>

definition gl_mem_map ::
    "collaborators \<Rightarrow> GstGLMemoryPBO \<Rightarrow> GstMapInfo \<Rightarrow> world \<Rightarrow>
     gpointer \<times> GstGLMemoryPBO \<times> GstMapInfo \<times> world" where
  "gl_mem_map env gl_mem minfo w =
     (if GST_MAP_GL \<in> map_flags minfo
      then
        (if tex_target gl_mem = GST_GL_TEXTURE_TARGET_EXTERNAL_OES
         then (TexIdRef (tex_id gl_mem), gl_mem, minfo, w)
         else gl_mem_map_gpu_access env gl_mem minfo w)
      else
        (if tex_target gl_mem = GST_GL_TEXTURE_TARGET_EXTERNAL_OES
         then (NULL, gl_mem, minfo, w)
         else gl_mem_map_cpu_access env gl_mem minfo w))"

text \<open>\<^verbatim>\<open>_gl_mem_unmap_cpu_access\<close> and \<^verbatim>\<open>_gl_mem_unmap\<close>.\<close>

definition gl_mem_unmap_cpu_access ::
    "GstGLMemoryPBO \<Rightarrow> GstMapInfo \<Rightarrow> world \<Rightarrow> GstGLMemoryPBO \<times> world" where
  "gl_mem_unmap_cpu_access gl_mem minfo w =
     (case pbo gl_mem of
        None \<Rightarrow> (gl_mem, w)
      | Some b \<Rightarrow>
          if \<not> CONTEXT_SUPPORTS_PBO_DOWNLOAD (mem_context gl_mem) then (gl_mem, w)
          else (let b1 = b\<lparr>buf_target := GL_PIXEL_PACK_BUFFER\<rparr>
                in (gl_mem\<lparr>pbo := Some b1\<rparr>, gst_memory_unmap b1 w)))"

definition gl_mem_unmap ::
    "GstGLMemoryPBO \<Rightarrow> GstMapInfo \<Rightarrow> world \<Rightarrow> GstGLMemoryPBO \<times> world" where
  "gl_mem_unmap gl_mem minfo w =
     (if GST_MAP_GL \<notin> map_flags minfo then gl_mem_unmap_cpu_access gl_mem minfo w
      else (gl_mem, w))"

subsection \<open>The copy engine\<close>

text \<open>
  \<^verbatim>\<open>GstGLMemoryPBOCopyParams\<close>. \<^verbatim>\<open>src\<close> is a pointer in the source; the record holds the
  source object, and the thread function hands it back as it leaves it.
\<close>

record GstGLMemoryPBOCopyParams =
  cp_src :: GstGLMemoryPBO
  cp_out_format :: GstVideoGLTextureType
  cp_out_width :: guint
  cp_out_height :: guint
  cp_out_stride :: guint
  cp_respecify :: bool
  cp_tex_target :: GstGLTextureTarget
  cp_tex_id :: nat
  cp_result :: bool

text \<open>
  The two byte sizes \<^verbatim>\<open>_gl_mem_copy_thread\<close> compares. \<^verbatim>\<open>in_size\<close> is the product of a
  \<^verbatim>\<open>guint\<close> and a \<^verbatim>\<open>gint\<close>, taken in 32 bits and then widened to \<^verbatim>\<open>gsize\<close>; \<^verbatim>\<open>out_size\<close>
  is the product of two \<^verbatim>\<open>gsize\<close> locals that hold \<^verbatim>\<open>guint\<close> values.
\<close>

definition copy_in_size :: "GstGLMemoryPBO \<Rightarrow> gsize" where
  "copy_in_size src = ucast (GL_MEM_HEIGHT src * GL_MEM_STRIDE src)"

definition copy_out_size :: "GstGLMemoryPBOCopyParams \<Rightarrow> gsize" where
  "copy_out_size cp = ucast (cp_out_height cp) * ucast (cp_out_stride cp)"

text \<open>The two error exits of \<^verbatim>\<open>_gl_mem_copy_thread\<close>: the labels \<^verbatim>\<open>fbo_error\<close> and \<^verbatim>\<open>error\<close>.\<close>

definition fbo_error ::
    "nat \<Rightarrow> GstGLMemoryPBOCopyParams \<Rightarrow> world \<Rightarrow> GstGLMemoryPBOCopyParams \<times> world" where
  "fbo_error fboId cp w =
     (cp\<lparr>cp_tex_id := 0, cp_result := False\<rparr>, emit (DeleteFramebuffers fboId) w)"

definition copy_error ::
    "GstGLMemoryPBOCopyParams \<Rightarrow> world \<Rightarrow> GstGLMemoryPBOCopyParams \<times> world" where
  "copy_error cp w = (cp\<lparr>cp_result := False\<rparr>, w)"

text \<open>The respecify branch of \<^verbatim>\<open>_gl_mem_copy_thread\<close>, from \<^verbatim>\<open>if (copy_params->respecify)\<close>
  after the framebuffer is set up to the \<^verbatim>\<open>gst_memory_unmap\<close> that ends it. \<open>Inl\<close> is a jump
  to \<^verbatim>\<open>fbo_error\<close>, \<open>Inr\<close> falls through to the common end.\<close>

definition copy_respecify ::
    "collaborators \<Rightarrow> GstGLContext \<Rightarrow> GstGLMemoryPBOCopyParams \<Rightarrow> nat \<Rightarrow> nat \<Rightarrow> nat \<Rightarrow> world \<Rightarrow>
     (GstGLMemoryPBOCopyParams \<times> world) + (GstGLMemoryPBOCopyParams \<times> world)" where
  "copy_respecify env ctx cp out_tex_target out_gl_format out_gl_type w =
     (let src = cp_src cp;
          out_width = (ucast (cp_out_width cp) :: gsize);
          out_height = (ucast (cp_out_height cp) :: gsize);
          in_gl_format = gst_gl_format_from_gl_texture_type env (tex_type src);
          in_gl_type = (if tex_type src = GST_VIDEO_GL_TEXTURE_TYPE_RGB16
                        then GL_UNSIGNED_SHORT_5_6_5 else GL_UNSIGNED_BYTE)
      in case (if has_GenBuffers ctx then pbo src else None) of
           None \<Rightarrow>
             Inl (cp, emit (BindTexture out_tex_target 0)
                        (gst_gl_context_set_error
                           ''Cannot reinterpret texture contents without pixel buffer objects'' w))
         | Some b \<Rightarrow>
             if GST_GL_API_GLES2 \<in> gl_api ctx
                \<and> (in_gl_format \<noteq> GL_RGBA \<or> in_gl_type \<noteq> GL_UNSIGNED_BYTE)
             then Inl (cp, emit (BindTexture out_tex_target 0)
                             (gst_gl_context_set_error
                                ''Cannot copy non RGBA/UNSIGNED_BYTE textures on GLES2'' w))
             else
               (let (ok, s1, w1) = read_pixels_to_pbo env src w;
                    b1 = (case pbo s1 of None \<Rightarrow> b | Some bb \<Rightarrow> bb)
                           \<lparr>buf_target := GL_PIXEL_UNPACK_BUFFER\<rparr>;
                    s2 = s1\<lparr>pbo := Some b1\<rparr>;
                    cp1 = cp\<lparr>cp_src := s2\<rparr>;
                    (r, w2) = gst_memory_map env b1 {GST_MAP_READ, GST_MAP_GL} w1
                in case r of
                     None \<Rightarrow> Inl (cp1, w2)
                   | Some _ \<Rightarrow>
                       (let w3 = emit (TexSubImage2D out_tex_target (ucast out_width)
                                         (ucast out_height) out_gl_format out_gl_type 0) w2;
                            w4 = gst_memory_unmap b1 w3
                        in Inr (cp1, w4))))"

text \<open>\<^verbatim>\<open>_gl_mem_copy_thread\<close>.\<close>

definition gl_mem_copy_thread ::
    "collaborators \<Rightarrow> GstGLContext \<Rightarrow> GstGLMemoryPBOCopyParams \<Rightarrow> world \<Rightarrow>
     GstGLMemoryPBOCopyParams \<times> world" where
  "gl_mem_copy_thread env ctx cp w =
     (let src = cp_src cp;
          tex = cp_tex_id cp;
          out_tex_target = gst_gl_texture_target_to_gl env (cp_tex_target cp);
          out_gl_format = gst_gl_format_from_gl_texture_type env (cp_out_format cp);
          out_gl_type = (if cp_out_format cp = GST_VIDEO_GL_TEXTURE_TYPE_RGB16
                         then GL_UNSIGNED_SHORT_5_6_5 else GL_UNSIGNED_BYTE)
      in if \<not> has_GenFramebuffers ctx
         then copy_error cp
                (gst_gl_context_set_error ''Context, EXT_framebuffer_object not supported'' w)
         else if cp_respecify cp \<and> copy_in_size src \<noteq> copy_out_size cp
         then copy_error cp w
         else
           (let (tex1, w1) =
                  (if tex = 0
                   then new_texture env out_tex_target
                          (gst_gl_sized_gl_format_from_gl_format_type env ctx out_gl_format
                             out_gl_type)
                          out_gl_format out_gl_type (cp_out_width cp) (cp_out_height cp) w
                   else (tex, w));
                fboId = gen_name env (trace w1);
                w2 = emit (GenFramebuffers fboId) w1;
                w3 = emit (BindFramebuffer GL_FRAMEBUFFER fboId) w2;
                w4 = emit (FramebufferTexture2D GL_FRAMEBUFFER GL_COLOR_ATTACHMENT0
                             (gst_gl_texture_target_to_gl env (tex_target src)) (tex_id src)) w3;
                w5 = emit (BindTexture out_tex_target tex1) w4;
                r = (if cp_respecify cp
                     then copy_respecify env ctx cp out_tex_target out_gl_format out_gl_type w5
                     else Inr (cp, emit (Call_copy_teximage tex1 (cp_tex_target cp)
                                           (cp_out_format cp) (cp_out_width cp)
                                           (cp_out_height cp)) w5))
            in case r of
                 Inl (cpe, we) \<Rightarrow> fbo_error fboId cpe we
               | Inr (cp6, w6) \<Rightarrow>
                   (let w7 = emit (BindTexture out_tex_target 0) w6;
                        w8 = emit (BindFramebuffer GL_FRAMEBUFFER 0) w7;
                        w9 = emit (DeleteFramebuffers fboId) w8
                    in (cp6\<lparr>cp_tex_id := tex1, cp_result := True\<rparr>, w9))))"

text \<open>
  \<^verbatim>\<open>gst_gl_context_thread_add\<close>, the dispatcher: it runs the work on the context's thread
  and returns when the work is done, so here it is the call itself.
\<close>

definition gst_gl_context_thread_add ::
    "GstGLContext \<Rightarrow> (GstGLContext \<Rightarrow> 'a \<Rightarrow> world \<Rightarrow> 'b) \<Rightarrow> 'a \<Rightarrow> world \<Rightarrow> 'b" where
  "gst_gl_context_thread_add ctx func data w = func ctx data w"

text \<open>
  \<^verbatim>\<open>gst_gl_memory_pbo_copy_into_texture\<close>. The \<^verbatim>\<open>gint\<close> width, height and stride are stored
  into \<^verbatim>\<open>guint\<close> fields with their bits unchanged. The source leaves \<^verbatim>\<open>result\<close> unset; every
  path of the thread function writes it. Returns the result, the texture id left in the
  parameters, the source object and the world.
\<close>

definition gst_gl_memory_pbo_copy_into_texture ::
    "collaborators \<Rightarrow> GstGLMemoryPBO \<Rightarrow> nat \<Rightarrow> GstGLTextureTarget \<Rightarrow> GstVideoGLTextureType \<Rightarrow>
     guint \<Rightarrow> guint \<Rightarrow> guint \<Rightarrow> bool \<Rightarrow> world \<Rightarrow> bool \<times> nat \<times> GstGLMemoryPBO \<times> world" where
  "gst_gl_memory_pbo_copy_into_texture env gl_mem tex target ttype width height stride
       respecify w =
     (let copy_params =
            \<lparr>cp_src = gl_mem, cp_out_format = ttype, cp_out_width = width,
             cp_out_height = height, cp_out_stride = stride, cp_respecify = respecify,
             cp_tex_target = target, cp_tex_id = tex, cp_result = False\<rparr>;
          (cp', w') = gst_gl_context_thread_add (mem_context gl_mem)
                        (gl_mem_copy_thread env) copy_params w
      in (cp_result cp', cp_tex_id cp', cp_src cp', w'))"

subsection \<open>Copying a memory\<close>

text \<open>
  What \<^verbatim>\<open>_gl_mem_copy\<close> returns: NULL, what \<^verbatim>\<open>fallback_mem_copy\<close> returned (a system
  memory copy), or the new GL memory.
\<close>

datatype copy_result = CopyNULL | CopyFallback gpointer | CopyGL GstGLMemoryPBO

text \<open>
  \<^verbatim>\<open>_gl_mem_copy\<close>. \<^verbatim>\<open>offset\<close> and \<^verbatim>\<open>size\<close> are \<^verbatim>\<open>gssize\<close>: \<^verbatim>\<open>offset > 0\<close> is a signed
  comparison, while \<^verbatim>\<open>size < GST_MEMORY_CAST (src)->size\<close> compares with a \<^verbatim>\<open>gsize\<close> and is
  therefore unsigned. The destination is mapped and released through the memory API
  (events \<open>Call_memory_map\<close>, \<open>Call_memory_unmap\<close>, \<open>Call_memory_unref\<close> on its texture id).
\<close>

definition gl_mem_copy ::
    "collaborators \<Rightarrow> GstGLMemoryPBO \<Rightarrow> gssize \<Rightarrow> gssize \<Rightarrow> world \<Rightarrow> copy_result \<times> world" where
  "gl_mem_copy env src offset sz w =
     (if tex_target src = GST_GL_TEXTURE_TARGET_EXTERNAL_OES then (CopyNULL, w)
      else if 0 <s offset \<or> sz < mem_size src
      then (CopyFallback (fallback_mem_copy_result env (trace w)),
            emit (Call_fallback_mem_copy offset sz) w)
      else
        (let (dest, w1) = gl_mem_new env (mem_context src) (tex_target src)
                            (Some (mem_align src)) (info src) (plane src) (valign src) 0 0 w
         in if GST_GL_BASE_MEMORY_TRANSFER_NEED_UPLOAD \<in> mem_flags src
            then
              (let ok = base_memory_memcpy_ok env (trace w1);
                   w2 = emit (Call_base_memory_memcpy offset sz) w1
               in if \<not> ok then (CopyNULL, emit (Call_memory_unref (tex_id dest)) w2)
                  else (CopyGL dest, w2))
            else
              (let r = memory_map_result env (trace w1);
                   w2 = emit (Call_memory_map (tex_id dest) {GST_MAP_WRITE, GST_MAP_GL}) w1
               in case r of
                    None \<Rightarrow> (CopyNULL, emit (Call_memory_unref (tex_id dest)) w2)
                  | Some _ \<Rightarrow>
                      (let ok = copy_into_ok env (trace w2);
                           w3 = emit (Call_copy_into (tex_id dest) (tex_target src)
                                        (tex_type src) (tex_width src) (GL_MEM_HEIGHT src)) w2;
                           w4 = emit (Call_memory_unmap (tex_id dest)) w3
                       in if \<not> ok
                          then (CopyNULL, emit (Call_memory_unref (tex_id dest)) w4)
                          else (CopyGL dest, w4)))))"

subsection \<open>Teardown\<close>

text \<open>
  Modelled from the spec: the \<^verbatim>\<open>destroy\<close> of the parent allocator class, which
  \<^verbatim>\<open>_gl_mem_destroy\<close> calls last, is not among the sources. From the spec: "a flag marks
  whether the texture handle was wrapped from an external owner (handle not destroyed on
  teardown) versus allocated by this engine (handle destroyed on teardown)".
\<close>

definition parent_destroy :: "GstGLMemoryPBO \<Rightarrow> world \<Rightarrow> world" where
  "parent_destroy gl_mem w =
     (let w1 = emit Call_parent_destroy w in
      if texture_wrapped gl_mem then w1 else emit (DeleteTextures (tex_id gl_mem)) w1)"

text \<open>\<^verbatim>\<open>_gl_mem_destroy\<close>.\<close>

definition gl_mem_destroy :: "GstGLMemoryPBO \<Rightarrow> world \<Rightarrow> GstGLMemoryPBO \<times> world" where
  "gl_mem_destroy gl_mem w =
     (let w1 = (case pbo gl_mem of None \<Rightarrow> w | Some b \<Rightarrow> emit (Call_memory_unref (buf_id b)) w);
          m1 = gl_mem\<lparr>pbo := None\<rparr>
      in (m1, parent_destroy m1 w1))"

subsection \<open>Constructors\<close>

text \<open>A dereference of a NULL pointer ends the call; it is the only crash modelled.\<close>

datatype crash = NULL_dereference

datatype GstGLAllocationParamsAllocFlags =
    GST_GL_ALLOCATION_PARAMS_ALLOC_FLAG_ALLOC
  | GST_GL_ALLOCATION_PARAMS_ALLOC_FLAG_WRAP_SYSMEM
  | GST_GL_ALLOCATION_PARAMS_ALLOC_FLAG_WRAP_GPU_HANDLE
  | GST_GL_ALLOCATION_PARAMS_ALLOC_FLAG_USER
  | GST_GL_ALLOCATION_PARAMS_ALLOC_FLAG_VIDEO

text \<open>\<^verbatim>\<open>GstGLVideoAllocationParams\<close>, with the fields of its \<^verbatim>\<open>parent\<close> part.\<close>

record GstGLVideoAllocationParams =
  ap_alloc_flags :: "GstGLAllocationParamsAllocFlags set"
  ap_context :: GstGLContext
  ap_alloc_params :: "gsize option"
  ap_notify :: nat
  ap_user_data :: nat
  ap_gl_handle :: nat
  ap_wrapped_data :: gpointer
  ap_target :: GstGLTextureTarget
  ap_v_info :: GstVideoInfo
  ap_plane :: nat
  ap_valign :: nat

text \<open>\<^verbatim>\<open>_gl_mem_pbo_alloc\<close>. \<open>Inr (None, w)\<close> is the NULL of \<^verbatim>\<open>g_return_val_if_fail\<close>.\<close>

definition gl_mem_pbo_alloc ::
    "collaborators \<Rightarrow> GstGLVideoAllocationParams \<Rightarrow> world \<Rightarrow>
     crash + (GstGLMemoryPBO option \<times> world)" where
  "gl_mem_pbo_alloc env params w =
     (if GST_GL_ALLOCATION_PARAMS_ALLOC_FLAG_VIDEO \<notin> ap_alloc_flags params then Inr (None, w)
      else
        (let mem0 = zeroed_GstGLMemoryPBO;
             mem1 = (if GST_GL_ALLOCATION_PARAMS_ALLOC_FLAG_WRAP_GPU_HANDLE \<in> ap_alloc_flags params
                     then mem0\<lparr>tex_id := ap_gl_handle params, texture_wrapped := True\<rparr>
                     else mem0);
             (m2, w1) = gl_mem_init env mem1 (ap_context params) (ap_target params)
                          (ap_alloc_params params) (ap_v_info params) (ap_plane params)
                          (ap_valign params) (ap_notify params) (ap_user_data params) w;
             m3 = (if GST_GL_ALLOCATION_PARAMS_ALLOC_FLAG_WRAP_GPU_HANDLE \<in> ap_alloc_flags params
                   then m2\<lparr>mem_flags :=
                             insert GST_GL_BASE_MEMORY_TRANSFER_NEED_DOWNLOAD (mem_flags m2)\<rparr>
                   else m2)
         in if GST_GL_ALLOCATION_PARAMS_ALLOC_FLAG_WRAP_SYSMEM \<in> ap_alloc_flags params
            then
              (case pbo m3 of
                 None \<Rightarrow> Inl NULL_dereference
               | Some b \<Rightarrow>
                   Inr (Some (m3\<lparr>mem_flags :=
                                    insert GST_GL_BASE_MEMORY_TRANSFER_NEED_UPLOAD (mem_flags m3),
                                  pbo := Some (b\<lparr>buf_data := ap_wrapped_data params,
                                                  buf_flags :=
                                                    insert GST_GL_BASE_MEMORY_TRANSFER_NEED_UPLOAD
                                                      (buf_flags b)\<rparr>)\<rparr>), w1))
            else Inr (Some m3, w1)))"

text \<open>
  \<^verbatim>\<open>gst_gl_memory_pbo_wrapped_texture\<close>. It calls \<^verbatim>\<open>_gl_mem_init\<close> with the arguments
  \<^verbatim>\<open>(..., info, valign, plane, user_data, notify)\<close>, so the alignment pointer arrives as the
  plane, the plane as the alignment pointer, and the user data and notify change places;
  the model passes them the same way. \<^verbatim>\<open>gst_gl_memory_pbo_alloc\<close> and
  \<^verbatim>\<open>gst_gl_memory_pbo_wrapped\<close> call \<^verbatim>\<open>_gl_mem_new\<close> in that order too.
\<close>

definition gst_gl_memory_pbo_wrapped_texture ::
    "collaborators \<Rightarrow> GstGLContext \<Rightarrow> nat \<Rightarrow> GstGLTextureTarget \<Rightarrow> GstVideoInfo \<Rightarrow> nat \<Rightarrow> nat \<Rightarrow>
     nat \<Rightarrow> nat \<Rightarrow> world \<Rightarrow> GstGLMemoryPBO \<times> world" where
  "gst_gl_memory_pbo_wrapped_texture env ctx texture_id target vinfo pl va user_data notify w =
     (let mem = zeroed_GstGLMemoryPBO\<lparr>tex_id := texture_id, texture_wrapped := True\<rparr>;
          (m, w1) = gl_mem_init env mem ctx target None vinfo va pl user_data notify w
      in (m\<lparr>mem_flags := insert GST_GL_BASE_MEMORY_TRANSFER_NEED_DOWNLOAD (mem_flags m)\<rparr>, w1))"

definition gst_gl_memory_pbo_alloc ::
    "collaborators \<Rightarrow> GstGLContext \<Rightarrow> GstGLTextureTarget \<Rightarrow> gsize option \<Rightarrow> GstVideoInfo \<Rightarrow>
     nat \<Rightarrow> nat \<Rightarrow> world \<Rightarrow> GstGLMemoryPBO \<times> world" where
  "gst_gl_memory_pbo_alloc env ctx target params vinfo pl va w =
     gl_mem_new env ctx target params vinfo va pl 0 0 w"

text \<open>
  \<^verbatim>\<open>gst_gl_memory_pbo_wrapped\<close>. \<^verbatim>\<open>_gl_mem_new\<close> never returns NULL, so the early
  \<^verbatim>\<open>return NULL\<close> is not taken. The store \<^verbatim>\<open>mem->pbo->mem.data = data\<close> comes before the
  test \<^verbatim>\<open>if (mem->pbo)\<close>.
\<close>

definition gst_gl_memory_pbo_wrapped ::
    "collaborators \<Rightarrow> GstGLContext \<Rightarrow> GstGLTextureTarget \<Rightarrow> GstVideoInfo \<Rightarrow> nat \<Rightarrow> nat \<Rightarrow>
     gpointer \<Rightarrow> nat \<Rightarrow> nat \<Rightarrow> world \<Rightarrow> crash + (GstGLMemoryPBO \<times> world)" where
  "gst_gl_memory_pbo_wrapped env ctx target vinfo pl va data user_data notify w =
     (let (mem, w1) = gl_mem_new env ctx target None vinfo va pl user_data notify w
      in case pbo mem of
           None \<Rightarrow> Inl NULL_dereference
         | Some b \<Rightarrow>
             (let m1 = mem\<lparr>pbo := Some (b\<lparr>buf_data := data\<rparr>)\<rparr>;
                  m2 = m1\<lparr>mem_flags :=
                            insert GST_GL_BASE_MEMORY_TRANSFER_NEED_UPLOAD (mem_flags m1)\<rparr>;
                  m3 = (case pbo m2 of
                          None \<Rightarrow> m2
                        | Some b2 \<Rightarrow>
                            m2\<lparr>pbo := Some (b2\<lparr>buf_flags :=
                                   insert GST_GL_BASE_MEMORY_TRANSFER_NEED_UPLOAD (buf_flags b2)\<rparr>)\<rparr>)
              in Inr (m3, w1)))"

subsection \<open>Explicit transfers\<close>

text \<open>
  \<^verbatim>\<open>_download_transfer\<close> and \<^verbatim>\<open>gst_gl_memory_pbo_download_transfer\<close>; the lock around the
  transfer has no effect in a sequential run. The \<^verbatim>\<open>g_return_if_fail\<close> of the entry points
  checks the type of the argument, which the model's type gives.
\<close>

definition download_transfer ::
    "collaborators \<Rightarrow> GstGLContext \<Rightarrow> GstGLMemoryPBO \<Rightarrow> world \<Rightarrow> GstGLMemoryPBO \<times> world" where
  "download_transfer env ctx gl_mem w =
     (let (ok, m, w1) = read_pixels_to_pbo env gl_mem w in (m, w1))"

definition gst_gl_memory_pbo_download_transfer ::
    "collaborators \<Rightarrow> GstGLMemoryPBO \<Rightarrow> world \<Rightarrow> GstGLMemoryPBO \<times> world" where
  "gst_gl_memory_pbo_download_transfer env gl_mem w =
     gst_gl_context_thread_add (mem_context gl_mem) (download_transfer env) gl_mem w"

text \<open>\<^verbatim>\<open>_upload_transfer\<close>, called only with a non-NULL staging buffer \<open>b\<close>, and its entry point
  \<^verbatim>\<open>gst_gl_memory_pbo_upload_transfer\<close>.\<close>

definition upload_transfer ::
    "collaborators \<Rightarrow> GstGLBuffer \<Rightarrow> GstGLContext \<Rightarrow> GstGLMemoryPBO \<Rightarrow> world \<Rightarrow>
     GstGLMemoryPBO \<times> world" where
  "upload_transfer env b ctx gl_mem w =
     (let b1 = b\<lparr>buf_target := GL_PIXEL_UNPACK_BUFFER\<rparr>;
          m1 = gl_mem\<lparr>pbo := Some b1\<rparr>;
          (r, w1) = gst_memory_map env b1 {GST_MAP_READ, GST_MAP_GL} w
      in case r of
           None \<Rightarrow> (m1, w1)
         | Some _ \<Rightarrow> (m1, gst_memory_unmap b1 w1))"

definition gst_gl_memory_pbo_upload_transfer ::
    "collaborators \<Rightarrow> GstGLMemoryPBO \<Rightarrow> world \<Rightarrow> GstGLMemoryPBO \<times> world" where
  "gst_gl_memory_pbo_upload_transfer env gl_mem w =
     (case pbo gl_mem of
        None \<Rightarrow> (gl_mem, w)
      | Some b \<Rightarrow>
          if CONTEXT_SUPPORTS_PBO_UPLOAD (mem_context gl_mem)
          then gst_gl_context_thread_add (mem_context gl_mem) (upload_transfer env b) gl_mem w
          else (gl_mem, w))"

subsection \<open>The mapping layer above the allocator\<close>

text \<open>
  Modelled from the spec: the mapping layer that calls the allocator's \<^verbatim>\<open>map\<close> hook
  (\<^verbatim>\<open>_gl_mem_map\<close>) and keeps the transfer flags is not among the sources; nothing in this
  file clears \<^verbatim>\<open>NEED_UPLOAD\<close>. From the spec: "a GPU-side read resolves the flag exactly once
  before returning": a GPU-side read mapping that returns a mapping leaves \<^verbatim>\<open>NEED_UPLOAD\<close>
  clear.
\<close>

definition base_memory_map ::
    "collaborators \<Rightarrow> GstGLMemoryPBO \<Rightarrow> GstMapInfo \<Rightarrow> world \<Rightarrow>
     gpointer \<times> GstGLMemoryPBO \<times> GstMapInfo \<times> world" where
  "base_memory_map env gl_mem minfo w =
     (let (data, m1, i1, w1) = gl_mem_map env gl_mem minfo w
      in if data \<noteq> NULL \<and> GST_MAP_GL \<in> map_flags minfo \<and> GST_MAP_READ \<in> map_flags minfo
         then (data, m1\<lparr>mem_flags := mem_flags m1 - {GST_GL_BASE_MEMORY_TRANSFER_NEED_UPLOAD}\<rparr>,
               i1, w1)
         else (data, m1, i1, w1))"

subsection \<open>Observing a run\<close>

text \<open>The events a run added to the trace, and the kinds of event the properties count.\<close>

definition new_events :: "world \<Rightarrow> world \<Rightarrow> event list" where
  "new_events w w' = drop (length (trace w)) (trace w')"

fun is_upload :: "event \<Rightarrow> bool" where
  "is_upload (TexSubImage2D _ _ _ _ _ _) = True"
| "is_upload _ = False"

definition uploads :: "event list \<Rightarrow> nat" where
  "uploads evs = length (filter is_upload evs)"

fun is_fbo_lifetime :: "event \<Rightarrow> bool" where
  "is_fbo_lifetime (GenFramebuffers _) = True"
| "is_fbo_lifetime (DeleteFramebuffers _) = True"
| "is_fbo_lifetime _ = False"

fun is_texture_delete :: "event \<Rightarrow> bool" where
  "is_texture_delete (DeleteTextures _) = True"
| "is_texture_delete _ = False"

text \<open>Events that touch a staging buffer: its allocation and its mappings.\<close>

fun is_staging :: "event \<Rightarrow> bool" where
  "is_staging (Call_buffer_alloc _ _ _) = True"
| "is_staging (Call_memory_map _ _) = True"
| "is_staging (Call_memory_unmap _) = True"
| "is_staging (BindBuffer _ _) = True"
| "is_staging _ = False"

text \<open>
  Modelled from the spec: the \<^verbatim>\<open>map\<close> of the parent allocator class is not among the
  sources, so the trace shows its call and not what it does. From the spec: a GPU-side read
  that cannot use the staging buffer falls "back to a direct upload path that bypasses the
  Staging Buffer entirely", and a GPU-side read "resolves the flag exactly once": a
  GPU-side read map done by the parent is one upload when \<^verbatim>\<open>NEED_UPLOAD\<close> is set on the
  object it is called on, and none otherwise. The upload transfers of a run on an object
  are the uploads this file issues itself and those direct ones.
\<close>

fun is_parent_read_map :: "event \<Rightarrow> bool" where
  "is_parent_read_map (Call_parent_map fl) = (GST_MAP_GL \<in> fl \<and> GST_MAP_READ \<in> fl)"
| "is_parent_read_map _ = False"

definition upload_transfers :: "GstGLMemoryPBO \<Rightarrow> event list \<Rightarrow> nat" where
  "upload_transfers gl_mem evs =
     uploads evs
     + (if GST_GL_BASE_MEMORY_TRANSFER_NEED_UPLOAD \<in> mem_flags gl_mem
        then length (filter is_parent_read_map evs) else 0)"

subsection \<open>Concrete inputs\<close>

text \<open>
  A set of collaborators for the concrete runs below: the usual OpenGL formats and targets,
  mappings and transfers that succeed, and fresh names counted from the length of the trace.
\<close>

definition example_collaborators :: collaborators where
  "example_collaborators =
     \<lparr>gst_gl_format_from_gl_texture_type =
        (\<lambda>t. case t of
               GST_VIDEO_GL_TEXTURE_TYPE_LUMINANCE \<Rightarrow> 0x1909
             | GST_VIDEO_GL_TEXTURE_TYPE_LUMINANCE_ALPHA \<Rightarrow> 0x190A
             | GST_VIDEO_GL_TEXTURE_TYPE_RGB16 \<Rightarrow> 0x1907
             | GST_VIDEO_GL_TEXTURE_TYPE_RGB \<Rightarrow> 0x1907
             | GST_VIDEO_GL_TEXTURE_TYPE_RGBA \<Rightarrow> GL_RGBA
             | GST_VIDEO_GL_TEXTURE_TYPE_R \<Rightarrow> 0x1903
             | GST_VIDEO_GL_TEXTURE_TYPE_RG \<Rightarrow> 0x8227),
      gst_gl_texture_target_to_gl =
        (\<lambda>t. case t of
               GST_GL_TEXTURE_TARGET_NONE \<Rightarrow> 0
             | GST_GL_TEXTURE_TARGET_2D \<Rightarrow> GL_TEXTURE_2D
             | GST_GL_TEXTURE_TARGET_RECTANGLE \<Rightarrow> GL_TEXTURE_RECTANGLE
             | GST_GL_TEXTURE_TARGET_EXTERNAL_OES \<Rightarrow> GL_TEXTURE_EXTERNAL_OES),
      gst_gl_sized_gl_format_from_gl_format_type = (\<lambda>ctx format type. format),
      gst_gl_get_plane_start = (\<lambda>vinfo va pl. 0),
      memory_map_result = (\<lambda>tr. Some (DataPtr 4096)),
      read_pixels_ok = (\<lambda>tr. True),
      parent_map_result = (\<lambda>tr. DataPtr 8192),
      parent_create_result = (\<lambda>tr. Some (Suc (length tr))),
      gen_name = (\<lambda>tr. Suc (length tr)),
      fallback_mem_copy_result = (\<lambda>tr. DataPtr 12288),
      base_memory_memcpy_ok = (\<lambda>tr. True),
      copy_into_ok = (\<lambda>tr. True),
      plane_data_size = (\<lambda>vinfo va pl. ucast (get_plane_height vinfo pl)
                                         * ucast (vi_plane_stride vinfo pl)),
      plane_tex_type = (\<lambda>ctx vinfo pl. GST_VIDEO_GL_TEXTURE_TYPE_RGBA),
      plane_tex_width = (\<lambda>vinfo pl. get_plane_width vinfo pl),
      plane_unpack_length = (\<lambda>vinfo pl. get_plane_width vinfo pl)\<rparr>"

text \<open>Contexts: OpenGL 3.3 core profile, legacy OpenGL 2.0, desktop OpenGL 3.3 with both
  API bits, OpenGL ES 3.0 and OpenGL ES 2.0.\<close>

definition opengl3_core_context :: GstGLContext where
  "opengl3_core_context =
     \<lparr>gl_api = {GST_GL_API_OPENGL3}, gl_major = 3, gl_minor = 3,
      has_GenFramebuffers = True, has_GenBuffers = True\<rparr>"

definition opengl2_context :: GstGLContext where
  "opengl2_context =
     \<lparr>gl_api = {GST_GL_API_OPENGL}, gl_major = 2, gl_minor = 0,
      has_GenFramebuffers = True, has_GenBuffers = True\<rparr>"

definition opengl_compat_context :: GstGLContext where
  "opengl_compat_context =
     \<lparr>gl_api = {GST_GL_API_OPENGL, GST_GL_API_OPENGL3}, gl_major = 3, gl_minor = 3,
      has_GenFramebuffers = True, has_GenBuffers = True\<rparr>"

definition gles3_context :: GstGLContext where
  "gles3_context =
     \<lparr>gl_api = {GST_GL_API_GLES2}, gl_major = 3, gl_minor = 0,
      has_GenFramebuffers = True, has_GenBuffers = True\<rparr>"

definition gles2_context :: GstGLContext where
  "gles2_context =
     \<lparr>gl_api = {GST_GL_API_GLES2}, gl_major = 2, gl_minor = 0,
      has_GenFramebuffers = True, has_GenBuffers = True\<rparr>"

text \<open>A 64x64 RGBA frame of one plane with 256 bytes per row, and a world in which nothing
  has happened and the pixel-store parameters have their defaults.\<close>

definition rgba_64x64 :: GstVideoInfo where
  "rgba_64x64 =
     \<lparr>vi_is_yuv = False, vi_width = 64, vi_height = 64,
      vi_comp_width = (\<lambda>c. 64), vi_comp_height = (\<lambda>c. 64), vi_plane_stride = (\<lambda>p. 256)\<rparr>"

definition initial_world :: world where
  "initial_world =
     \<lparr>trace = [], unpack_row_length = 0, unpack_alignment = 4, context_error = None\<rparr>"

text \<open>An object of that frame on a given context with a given target and flags, texture 7,
  and a staging buffer 9 of the plane's size.\<close>

definition example_pbo :: GstGLBuffer where
  "example_pbo =
     \<lparr>buf_id = 9, buf_target = GL_PIXEL_UNPACK_BUFFER, buf_data = NULL, buf_flags = {},
      buf_size = 16384\<rparr>"

definition example_mem ::
    "GstGLContext \<Rightarrow> GstGLTextureTarget \<Rightarrow> transfer_flag set \<Rightarrow> GstGLMemoryPBO" where
  "example_mem ctx target fl =
     \<lparr>mem_flags = fl, mem_size = 16384, mem_offset = 0, mem_align = 0, mem_context = ctx,
      mem_notify = 0, mem_user_data = 0, tex_id = 7, tex_target = target,
      tex_type = GST_VIDEO_GL_TEXTURE_TYPE_RGBA, tex_width = 64, unpack_length = 64,
      texture_wrapped = False, info = rgba_64x64, plane = 0, valign = 0,
      pbo = Some example_pbo\<rparr>"

text \<open>The same collaborators with every \<^verbatim>\<open>gst_memory_map\<close> failing.\<close>

definition failing_map_collaborators :: collaborators where
  "failing_map_collaborators = example_collaborators\<lparr>memory_map_result := (\<lambda>tr. None)\<rparr>"

text \<open>An object on desktop OpenGL 3.3 whose plane has 65536 rows of 65537 bytes: 4 GiB and
  65536 bytes.\<close>

definition huge_plane_mem :: GstGLMemoryPBO where
  "huge_plane_mem =
     (example_mem opengl_compat_context GST_GL_TEXTURE_TARGET_2D {})
       \<lparr>info := rgba_64x64\<lparr>vi_height := 65536, vi_plane_stride := (\<lambda>p. 65537)\<rparr>\<rparr>"

section \<open>Properties\<close>

subsection \<open>Basic facts\<close>

lemma trace_emit [simp]: "trace (emit e w) = trace w @ [e]"
  by (simp add: emit_def)

lemma unpack_row_length_emit [simp]: "unpack_row_length (emit e w) = unpack_row_length w"
  by (simp add: emit_def)

lemma unpack_alignment_emit [simp]: "unpack_alignment (emit e w) = unpack_alignment w"
  by (simp add: emit_def)

lemma context_error_emit [simp]: "context_error (emit e w) = context_error w"
  by (simp add: emit_def)

lemma new_events_append [simp]: "trace w' = trace w @ evs \<Longrightarrow> new_events w w' = evs"
  by (simp add: new_events_def)

lemma USING_OPENGL3_supports_upload:
  "USING_OPENGL3 ctx \<Longrightarrow> CONTEXT_SUPPORTS_PBO_UPLOAD ctx"
  by (auto simp: USING_OPENGL3_def CONTEXT_SUPPORTS_PBO_UPLOAD_def
      gst_gl_context_check_gl_version_def split: if_splits)

subsection \<open>Pixel-store state after an upload\<close>

text \<open>
  Claim C2. The upload from the staging buffer is to restore the row-length/alignment
  pixel-store state it set, on every context variant on which it set it. The code sets
  \<^verbatim>\<open>GL_UNPACK_ROW_LENGTH\<close> when \<^verbatim>\<open>USING_OPENGL || USING_GLES3 || USING_OPENGL3\<close> but resets
  it only when \<^verbatim>\<open>USING_OPENGL || USING_GLES3\<close>: on a context that is OpenGL3 without being
  OpenGL or GLES3 (a core profile context), an upload that runs leaves the row length at
  the object's \<^verbatim>\<open>unpack_length\<close> (as the \<^verbatim>\<open>GLint\<close> it was passed as) instead of the
  default 0.
\<close>

theorem upload_pbo_memory_row_length_opengl3:
  assumes "GST_GL_BASE_MEMORY_TRANSFER_NEED_UPLOAD \<in> mem_flags gl_mem"
    and "USING_OPENGL3 (mem_context gl_mem)"
    and "\<not> USING_OPENGL (mem_context gl_mem)"
    and "\<not> USING_GLES3 (mem_context gl_mem)"
  shows "unpack_row_length (upload_pbo_memory env gl_mem b w) = sint (unpack_length gl_mem)"
  using assms USING_OPENGL3_supports_upload [of "mem_context gl_mem"]
  by (simp add: upload_pbo_memory_def Let_def glPixelStorei_def)

theorem upload_pbo_memory_row_length_opengl3_witness:
  "unpack_row_length initial_world = 0 \<and>
   unpack_row_length
     (upload_pbo_memory example_collaborators
        (example_mem opengl3_core_context GST_GL_TEXTURE_TARGET_2D
           {GST_GL_BASE_MEMORY_TRANSFER_NEED_UPLOAD})
        example_pbo initial_world) = 64"
  using upload_pbo_memory_row_length_opengl3 [of
      "example_mem opengl3_core_context GST_GL_TEXTURE_TARGET_2D
         {GST_GL_BASE_MEMORY_TRANSFER_NEED_UPLOAD}" example_collaborators example_pbo initial_world]
  by (simp add: example_mem_def opengl3_core_context_def USING_OPENGL3_def USING_OPENGL_def
      USING_GLES3_def gst_gl_context_check_gl_version_def initial_world_def)

text \<open>
  On every other context the defaults are back when the upload returns: started from the
  default pixel-store state, the upload leaves the row length at 0 and the alignment at 4
  unless the context is OpenGL3 without being OpenGL or GLES3.
\<close>

lemma upload_pbo_memory_restores_defaults:
  assumes "unpack_row_length w = 0" and "unpack_alignment w = 4"
    and "USING_OPENGL (mem_context gl_mem) \<or> USING_GLES3 (mem_context gl_mem)
         \<or> \<not> USING_OPENGL3 (mem_context gl_mem)"
  shows "unpack_row_length (upload_pbo_memory env gl_mem b w) = 0
         \<and> unpack_alignment (upload_pbo_memory env gl_mem b w) = 4"
  using assms
  by (auto simp: upload_pbo_memory_def Let_def glPixelStorei_def)

subsection \<open>Mapping an object with an external target\<close>

text \<open>
  Claim C3. For an object whose texture target is external/opaque, a GPU-side map request
  returns the address of the texture handle without any transfer, whatever the flags, and
  a CPU-side map request returns NULL; in both cases the object, the map info and the
  world (trace, pixel-store state, context error) are left as they were.
\<close>

theorem external_target_map:
  assumes "tex_target gl_mem = GST_GL_TEXTURE_TARGET_EXTERNAL_OES"
  shows "gl_mem_map env gl_mem minfo w =
          ((if GST_MAP_GL \<in> map_flags minfo then TexIdRef (tex_id gl_mem) else NULL),
           gl_mem, minfo, w)"
  using assms by (simp add: gl_mem_map_def)

theorem external_target_map_witness:
  "gl_mem_map example_collaborators
     (example_mem gles3_context GST_GL_TEXTURE_TARGET_EXTERNAL_OES
        {GST_GL_BASE_MEMORY_TRANSFER_NEED_UPLOAD, GST_GL_BASE_MEMORY_TRANSFER_NEED_DOWNLOAD})
     \<lparr>map_flags = {GST_MAP_READ, GST_MAP_GL}, map_user_data0 = None\<rparr> initial_world
   = (TexIdRef 7,
      example_mem gles3_context GST_GL_TEXTURE_TARGET_EXTERNAL_OES
        {GST_GL_BASE_MEMORY_TRANSFER_NEED_UPLOAD, GST_GL_BASE_MEMORY_TRANSFER_NEED_DOWNLOAD},
      \<lparr>map_flags = {GST_MAP_READ, GST_MAP_GL}, map_user_data0 = None\<rparr>, initial_world)
   \<and>
   gl_mem_map example_collaborators
     (example_mem gles3_context GST_GL_TEXTURE_TARGET_EXTERNAL_OES
        {GST_GL_BASE_MEMORY_TRANSFER_NEED_UPLOAD, GST_GL_BASE_MEMORY_TRANSFER_NEED_DOWNLOAD})
     \<lparr>map_flags = {GST_MAP_READ}, map_user_data0 = None\<rparr> initial_world
   = (NULL,
      example_mem gles3_context GST_GL_TEXTURE_TARGET_EXTERNAL_OES
        {GST_GL_BASE_MEMORY_TRANSFER_NEED_UPLOAD, GST_GL_BASE_MEMORY_TRANSFER_NEED_DOWNLOAD},
      \<lparr>map_flags = {GST_MAP_READ}, map_user_data0 = None\<rparr>, initial_world)"
  using
    external_target_map [of
      "example_mem gles3_context GST_GL_TEXTURE_TARGET_EXTERNAL_OES
         {GST_GL_BASE_MEMORY_TRANSFER_NEED_UPLOAD, GST_GL_BASE_MEMORY_TRANSFER_NEED_DOWNLOAD}"
      example_collaborators "\<lparr>map_flags = {GST_MAP_READ, GST_MAP_GL}, map_user_data0 = None\<rparr>"
      initial_world]
    external_target_map [of
      "example_mem gles3_context GST_GL_TEXTURE_TARGET_EXTERNAL_OES
         {GST_GL_BASE_MEMORY_TRANSFER_NEED_UPLOAD, GST_GL_BASE_MEMORY_TRANSFER_NEED_DOWNLOAD}"
      example_collaborators "\<lparr>map_flags = {GST_MAP_READ}, map_user_data0 = None\<rparr>"
      initial_world]
  by (simp add: example_mem_def)

subsection \<open>The copy engine\<close>

lemma trace_set_error [simp]: "trace (gst_gl_context_set_error msg w) = trace w"
  by (simp add: gst_gl_context_set_error_def)

text \<open>
  The size test of a copy with \<^verbatim>\<open>respecify = TRUE\<close>. When the two sizes the code compares
  differ, the copy fails and the destination texture is not touched: the call returns
  FALSE, no OpenGL command is issued and no collaborator is called (the trace is
  unchanged), the texture id handed in is the one left in the parameters, and the source
  object and the pixel-store state are unchanged. The sizes compared are \<open>copy_in_size\<close>, a
  32-bit product widened to \<^verbatim>\<open>gsize\<close>, and the \<^verbatim>\<open>gsize\<close> product of the height and stride
  passed in.
\<close>

lemma respecify_size_mismatch_fails:
  assumes "copy_in_size gl_mem \<noteq> ucast height * ucast stride"
  shows "case gst_gl_memory_pbo_copy_into_texture env gl_mem tex target ttype width height
                stride True w of
           (res, tex', src', w') \<Rightarrow>
             res = False \<and> tex' = tex \<and> src' = gl_mem \<and> new_events w w' = [] \<and>
             trace w' = trace w \<and> unpack_row_length w' = unpack_row_length w \<and>
             unpack_alignment w' = unpack_alignment w"
  using assms
  by (simp add: gst_gl_memory_pbo_copy_into_texture_def gst_gl_context_thread_add_def
      gl_mem_copy_thread_def Let_def copy_error_def copy_out_size_def new_events_def
      gst_gl_context_set_error_def)

lemma respecify_size_mismatch_fails_example:
  "copy_in_size (example_mem gles3_context GST_GL_TEXTURE_TARGET_2D {}) = 16384 \<and>
   (ucast (32 :: guint) * ucast (256 :: guint) :: gsize) = 8192 \<and>
   gst_gl_memory_pbo_copy_into_texture example_collaborators
     (example_mem gles3_context GST_GL_TEXTURE_TARGET_2D {}) 5 GST_GL_TEXTURE_TARGET_2D
     GST_VIDEO_GL_TEXTURE_TYPE_RGBA 64 32 256 True initial_world
   = (False, 5, example_mem gles3_context GST_GL_TEXTURE_TARGET_2D {}, initial_world)"
proof -
  have sz: "copy_in_size (example_mem gles3_context GST_GL_TEXTURE_TARGET_2D {}) = 16384"
    by (simp add: copy_in_size_def example_mem_def GL_MEM_HEIGHT_def GL_MEM_STRIDE_def
        get_plane_height_def rgba_64x64_def)
  have ne: "copy_in_size (example_mem gles3_context GST_GL_TEXTURE_TARGET_2D {})
              \<noteq> ucast (32 :: guint) * ucast (256 :: guint)"
    by (simp add: sz)
  show ?thesis
    using respecify_size_mismatch_fails [OF ne, where env = example_collaborators and tex = 5
        and target = GST_GL_TEXTURE_TARGET_2D and ttype = GST_VIDEO_GL_TEXTURE_TYPE_RGBA
        and width = 64 and w = initial_world] sz
    by (simp add: gst_gl_memory_pbo_copy_into_texture_def gst_gl_context_thread_add_def
      gl_mem_copy_thread_def Let_def copy_error_def copy_out_size_def example_mem_def
      gles3_context_def)
qed

text \<open>
  Read as numbers, the destination size is the product of the height and the stride, and
  the source size is the product of the plane's height and stride whenever that product is
  below \<open>2 ^ 32\<close>.
\<close>

lemma unat_ucast_guint_gsize: "unat (ucast (x :: guint) :: gsize) = unat x"
proof -
  have "unat x < 2 ^ 32" using unsigned_less [of x, where 'a = nat] by simp
  then have "unat x < 2 ^ 64" by (rule less_le_trans) simp
  then show ?thesis
    by (simp add: unsigned_ucast_eq take_bit_nat_eq_self)
qed

lemma copy_out_size_exact:
  "unat (copy_out_size cp) = unat (cp_out_height cp) * unat (cp_out_stride cp)"
proof -
  have h: "unat (cp_out_height cp) < 2 ^ 32" and s: "unat (cp_out_stride cp) < 2 ^ 32"
    using unsigned_less [of "cp_out_height cp", where 'a = nat]
      unsigned_less [of "cp_out_stride cp", where 'a = nat] by simp_all
  have "unat (cp_out_height cp) * unat (cp_out_stride cp) < 2 ^ 32 * 2 ^ 32"
    using h s by (intro mult_strict_mono) simp_all
  then have lt: "unat (ucast (cp_out_height cp) :: gsize) * unat (ucast (cp_out_stride cp) :: gsize)
                   < 2 ^ LENGTH(64)"
    by (simp add: unat_ucast_guint_gsize)
  show ?thesis
    using lt unat_mult_lem [of "ucast (cp_out_height cp) :: gsize" "ucast (cp_out_stride cp)"]
    by (simp add: copy_out_size_def unat_ucast_guint_gsize)
qed

lemma copy_in_size_exact:
  assumes "unat (GL_MEM_HEIGHT src) * unat (GL_MEM_STRIDE src) < 2 ^ 32"
  shows "unat (copy_in_size src) = unat (GL_MEM_HEIGHT src) * unat (GL_MEM_STRIDE src)"
  using assms unat_mult_lem [of "GL_MEM_HEIGHT src" "GL_MEM_STRIDE src"]
  by (simp add: copy_in_size_def unat_ucast_guint_gsize)

text \<open>In general the source size compared is the true product modulo \<open>2 ^ 32\<close>.\<close>

lemma copy_in_size_mod:
  "unat (copy_in_size src) = (unat (GL_MEM_HEIGHT src) * unat (GL_MEM_STRIDE src)) mod 2 ^ 32"
  by (simp add: copy_in_size_def unat_ucast_guint_gsize unat_word_ariths)

lemma copy_in_size_wraps: "copy_in_size huge_plane_mem = 65536"
  by (simp add: copy_in_size_def GL_MEM_HEIGHT_def GL_MEM_STRIDE_def get_plane_height_def
      huge_plane_mem_def example_mem_def rgba_64x64_def)

text \<open>
  Claim C1. Every copy with \<^verbatim>\<open>respecify = TRUE\<close> whose destination byte size
  (\<^verbatim>\<open>out_height * out_stride\<close>) differs from the source byte size (plane height times plane
  stride) is to fail without touching the destination texture. The code computes the
  source size as the product of a \<^verbatim>\<open>guint\<close> and a \<^verbatim>\<open>gint\<close>, in 32 bits, and widens it to
  \<^verbatim>\<open>gsize\<close> only afterwards, while it computes the destination size in \<^verbatim>\<open>gsize\<close>. For a
  source plane of 65536 rows of 65537 bytes (4295032832 bytes) and a destination of 256
  rows of 256 bytes (65536 bytes) the byte sizes differ, yet the test finds 65536 on both
  sides: the copy returns TRUE and uploads into the destination texture.
\<close>

theorem respecify_copy_passes_on_wrapped_size:
  "unat (GL_MEM_HEIGHT huge_plane_mem) * unat (GL_MEM_STRIDE huge_plane_mem) = 4295032832
   \<and> unat (256 :: guint) * unat (256 :: guint) = 65536
   \<and> fst (gst_gl_memory_pbo_copy_into_texture example_collaborators huge_plane_mem 5
             GST_GL_TEXTURE_TARGET_2D GST_VIDEO_GL_TEXTURE_TYPE_R 256 256 256 True
             initial_world) = True
   \<and> trace (snd (snd (snd (gst_gl_memory_pbo_copy_into_texture example_collaborators
             huge_plane_mem 5 GST_GL_TEXTURE_TARGET_2D GST_VIDEO_GL_TEXTURE_TYPE_R 256 256 256
             True initial_world))))
     = [GenFramebuffers 1, BindFramebuffer GL_FRAMEBUFFER 1,
        FramebufferTexture2D GL_FRAMEBUFFER GL_COLOR_ATTACHMENT0 GL_TEXTURE_2D 7,
        BindTexture GL_TEXTURE_2D 5, Call_memory_map 9 {GST_MAP_READ, GST_MAP_GL},
        TexSubImage2D GL_TEXTURE_2D 256 256 0x1903 GL_UNSIGNED_BYTE 0,
        Call_memory_unmap 9, BindTexture GL_TEXTURE_2D 0, BindFramebuffer GL_FRAMEBUFFER 0,
        DeleteFramebuffers 1]"
  by (simp add: gst_gl_memory_pbo_copy_into_texture_def gst_gl_context_thread_add_def
      gl_mem_copy_thread_def copy_respecify_def read_pixels_to_pbo_def
      gst_memory_map_def gst_memory_unmap_def huge_plane_mem_def example_collaborators_def
      example_mem_def example_pbo_def opengl_compat_context_def initial_world_def
      copy_in_size_def copy_out_size_def GL_MEM_HEIGHT_def GL_MEM_STRIDE_def
      get_plane_height_def rgba_64x64_def CONTEXT_SUPPORTS_PBO_DOWNLOAD_def
      gst_gl_context_check_gl_version_def emit_def Let_def)

text \<open>The events of the helpers of the copy: none creates or deletes a framebuffer.\<close>

lemma read_pixels_to_pbo_trace:
  "\<exists>evs. trace (snd (snd (read_pixels_to_pbo env m w))) = trace w @ evs
         \<and> filter is_fbo_lifetime evs = []"
  by (auto simp: read_pixels_to_pbo_def Let_def gst_memory_map_def gst_memory_unmap_def
      split: option.splits)

lemma new_texture_trace:
  "\<exists>evs. trace (snd (new_texture env t i f ty wd ht w)) = trace w @ evs
         \<and> filter is_fbo_lifetime evs = []"
  by (simp add: new_texture_def Let_def)

lemma copy_respecify_trace:
  "\<exists>evs. trace (snd (case_sum id id (copy_respecify env ctx cp t f ty w))) = trace w @ evs
         \<and> filter is_fbo_lifetime evs = []"
proof -
  obtain ok s1 w1 where rp: "read_pixels_to_pbo env (cp_src cp) w = (ok, s1, w1)"
    by (cases "read_pixels_to_pbo env (cp_src cp) w") auto
  from read_pixels_to_pbo_trace [of env "cp_src cp" w] rp
  obtain evs where evs: "trace w1 = trace w @ evs" "filter is_fbo_lifetime evs = []"
    by auto
  show ?thesis
    using evs rp
    by (auto simp: copy_respecify_def Let_def gst_memory_map_def gst_memory_unmap_def
        split: option.splits)
qed

text \<open>
  Claim C8. In every run of the copy, a transient framebuffer that was created is deleted
  before the copy returns, on the success path and on every failure path. A run of
  \<^verbatim>\<open>_gl_mem_copy_thread\<close> only adds events to the trace, and either it creates and deletes no
  framebuffer (and the copy has failed), or it creates exactly one framebuffer, deletes that
  same framebuffer exactly once afterwards, and the deletion is the last event of the run.
\<close>

theorem copy_thread_framebuffer_lifetime:
  "case gl_mem_copy_thread env ctx cp w of (cp', w') \<Rightarrow>
     trace w' = trace w @ new_events w w' \<and>
     (filter is_fbo_lifetime (new_events w w') = [] \<and> cp_result cp' = False
      \<or> (\<exists>f. filter is_fbo_lifetime (new_events w w') = [GenFramebuffers f, DeleteFramebuffers f]
              \<and> last (new_events w w') = DeleteFramebuffers f))"
proof -
  let ?ot = "gst_gl_texture_target_to_gl env (cp_tex_target cp)"
  let ?of = "gst_gl_format_from_gl_texture_type env (cp_out_format cp)"
  let ?oty = "(if cp_out_format cp = GST_VIDEO_GL_TEXTURE_TYPE_RGB16
               then GL_UNSIGNED_SHORT_5_6_5 else GL_UNSIGNED_BYTE)"
  show ?thesis
  proof (cases "\<not> has_GenFramebuffers ctx
                \<or> (cp_respecify cp \<and> copy_in_size (cp_src cp) \<noteq> copy_out_size cp)")
    case True
    then show ?thesis
      by (auto simp: gl_mem_copy_thread_def Let_def copy_error_def new_events_def)
  next
    case False
    obtain tex1 w1 where nt:
      "(if cp_tex_id cp = 0
        then new_texture env ?ot
               (gst_gl_sized_gl_format_from_gl_format_type env ctx ?of ?oty)
               ?of ?oty (cp_out_width cp) (cp_out_height cp) w
        else (cp_tex_id cp, w)) = (tex1, w1)"
      by (metis surj_pair)
    obtain evs1 where evs1: "trace w1 = trace w @ evs1" "filter is_fbo_lifetime evs1 = []"
      using nt new_texture_trace [of env ?ot
          "gst_gl_sized_gl_format_from_gl_format_type env ctx ?of ?oty"
          ?of ?oty "cp_out_width cp" "cp_out_height cp" w]
      by (auto split: if_splits)
    let ?f = "gen_name env (trace w1)"
    let ?w5 = "emit (BindTexture ?ot tex1)
                 (emit (FramebufferTexture2D GL_FRAMEBUFFER GL_COLOR_ATTACHMENT0
                          (gst_gl_texture_target_to_gl env (tex_target (cp_src cp)))
                          (tex_id (cp_src cp)))
                   (emit (BindFramebuffer GL_FRAMEBUFFER ?f) (emit (GenFramebuffers ?f) w1)))"
    obtain evs2 where evs2:
      "trace (snd (case_sum id id (copy_respecify env ctx cp ?ot ?of ?oty ?w5)))
         = trace ?w5 @ evs2"
      "filter is_fbo_lifetime evs2 = []"
      using copy_respecify_trace by blast
    show ?thesis
      using False nt evs1 evs2
      by (auto simp: gl_mem_copy_thread_def Let_def fbo_error_def new_events_def
          split: sum.splits prod.splits)
  qed
qed

theorem copy_thread_framebuffer_lifetime_witness:
  "trace (snd (gl_mem_copy_thread failing_map_collaborators gles3_context
      \<lparr>cp_src = example_mem gles3_context GST_GL_TEXTURE_TARGET_2D {},
       cp_out_format = GST_VIDEO_GL_TEXTURE_TYPE_RGBA, cp_out_width = 64, cp_out_height = 64,
       cp_out_stride = 256, cp_respecify = True, cp_tex_target = GST_GL_TEXTURE_TARGET_2D,
       cp_tex_id = 5, cp_result = False\<rparr> initial_world))
   = [GenFramebuffers 1, BindFramebuffer GL_FRAMEBUFFER 1,
      FramebufferTexture2D GL_FRAMEBUFFER GL_COLOR_ATTACHMENT0 GL_TEXTURE_2D 7,
      BindTexture GL_TEXTURE_2D 5, Call_memory_map 9 {GST_MAP_READ, GST_MAP_GL},
      DeleteFramebuffers 1]
   \<and> cp_result (fst (gl_mem_copy_thread failing_map_collaborators gles3_context
      \<lparr>cp_src = example_mem gles3_context GST_GL_TEXTURE_TARGET_2D {},
       cp_out_format = GST_VIDEO_GL_TEXTURE_TYPE_RGBA, cp_out_width = 64, cp_out_height = 64,
       cp_out_stride = 256, cp_respecify = True, cp_tex_target = GST_GL_TEXTURE_TARGET_2D,
       cp_tex_id = 5, cp_result = False\<rparr> initial_world)) = False"
  using copy_thread_framebuffer_lifetime [where env = failing_map_collaborators
      and ctx = gles3_context and w = initial_world and cp =
      "\<lparr>cp_src = example_mem gles3_context GST_GL_TEXTURE_TARGET_2D {},
       cp_out_format = GST_VIDEO_GL_TEXTURE_TYPE_RGBA, cp_out_width = 64, cp_out_height = 64,
       cp_out_stride = 256, cp_respecify = True, cp_tex_target = GST_GL_TEXTURE_TARGET_2D,
       cp_tex_id = 5, cp_result = False\<rparr>"]
  by (simp add: gl_mem_copy_thread_def copy_respecify_def read_pixels_to_pbo_def fbo_error_def
      gst_memory_map_def failing_map_collaborators_def example_collaborators_def
      example_mem_def example_pbo_def gles3_context_def initial_world_def copy_in_size_def
      copy_out_size_def GL_MEM_HEIGHT_def GL_MEM_STRIDE_def get_plane_height_def
      rgba_64x64_def CONTEXT_SUPPORTS_PBO_DOWNLOAD_def gst_gl_context_check_gl_version_def
      emit_def Let_def)

subsection \<open>Creation of the staging buffer\<close>

text \<open>When \<^verbatim>\<open>_gl_mem_create\<close> makes the staging buffer of an object that has none.\<close>

lemma gl_mem_create_pbo:
  assumes "pbo mem = None"
  shows "pbo (fst (snd (gl_mem_create env mem w))) \<noteq> None \<longleftrightarrow>
           (texture_wrapped mem \<or> parent_create_result env (trace w) \<noteq> None)
           \<and> (USING_OPENGL (mem_context mem) \<or> USING_OPENGL3 (mem_context mem)
                \<or> USING_GLES3 (mem_context mem))"
  using assms
  by (auto simp: gl_mem_create_def parent_create_def gst_gl_buffer_alloc_def Let_def
      split: option.splits prod.splits)

lemma gl_mem_new_pbo:
  "pbo (fst (gl_mem_new env ctx target params vinfo pl va notify user_data w)) \<noteq> None \<longleftrightarrow>
     parent_create_result env (trace w) \<noteq> None
     \<and> (USING_OPENGL ctx \<or> USING_OPENGL3 ctx \<or> USING_GLES3 ctx)"
proof -
  let ?m = "zeroed_GstGLMemoryPBO\<lparr>texture_wrapped := False, mem_flags := {},
                   mem_size := plane_data_size env vinfo va pl,
                   mem_offset := 0,
                   mem_align := (case params of None \<Rightarrow> 0 | Some a \<Rightarrow> a),
                   mem_context := ctx,
                   mem_notify := notify,
                   mem_user_data := user_data,
                   tex_target := target,
                   tex_type := plane_tex_type env ctx vinfo pl,
                   tex_width := plane_tex_width env vinfo pl,
                   unpack_length := plane_unpack_length env vinfo pl,
                   info := vinfo,
                   plane := pl,
                   valign := va\<rparr>"
  have "pbo ?m = None" by (simp add: zeroed_GstGLMemoryPBO_def)
  from gl_mem_create_pbo [OF this, of env w]
  show ?thesis
    by (simp add: gl_mem_new_def gl_mem_init_def gst_gl_memory_init_def Let_def
        zeroed_GstGLMemoryPBO_def case_prod_beta del: not_None_eq)
qed

lemma gl_mem_new_fields:
  "tex_target (fst (gl_mem_new env ctx target params vinfo pl va notify user_data w)) = target"
  "mem_flags (fst (gl_mem_new env ctx target params vinfo pl va notify user_data w)) = {}"
  "texture_wrapped (fst (gl_mem_new env ctx target params vinfo pl va notify user_data w)) = False"
  by (auto simp: gl_mem_new_def gl_mem_init_def gst_gl_memory_init_def Let_def
      gl_mem_create_def parent_create_def gst_gl_buffer_alloc_def
      zeroed_GstGLMemoryPBO_def split: prod.splits option.splits)

lemma gl_mem_init_pbo:
  assumes "pbo mem = None"
  shows "pbo (fst (gl_mem_init env mem ctx target params vinfo pl va notify user_data w)) \<noteq> None
           \<longleftrightarrow> (texture_wrapped mem \<or> parent_create_result env (trace w) \<noteq> None)
                \<and> (USING_OPENGL ctx \<or> USING_OPENGL3 ctx \<or> USING_GLES3 ctx)"
proof -
  let ?m = "mem\<lparr>mem_flags := {},
                   mem_size := plane_data_size env vinfo va pl,
                   mem_offset := 0,
                   mem_align := (case params of None \<Rightarrow> 0 | Some a \<Rightarrow> a),
                   mem_context := ctx,
                   mem_notify := notify,
                   mem_user_data := user_data,
                   tex_target := target,
                   tex_type := plane_tex_type env ctx vinfo pl,
                   tex_width := plane_tex_width env vinfo pl,
                   unpack_length := plane_unpack_length env vinfo pl,
                   info := vinfo,
                   plane := pl,
                   valign := va\<rparr>"
  have "pbo ?m = None" using assms by simp
  from gl_mem_create_pbo [OF this, of env w]
  show ?thesis
    by (simp add: gl_mem_init_def gst_gl_memory_init_def Let_def case_prod_beta
        del: not_None_eq)
qed

text \<open>
  Claim C4, as stated: a staging buffer is created at construction if and only if the
  context supports staging-buffer transfers, and never for an external/opaque target.
  It fails on the code: allocated on a legacy OpenGL 2.0 context with the external target,
  the object gets a staging buffer, although the context supports neither staged upload nor
  staged download and the target is external.
\<close>

theorem staging_buffer_for_external_target_counterexample:
  "pbo (fst (gst_gl_memory_pbo_alloc example_collaborators opengl2_context
              GST_GL_TEXTURE_TARGET_EXTERNAL_OES None rgba_64x64 0 0 initial_world)) \<noteq> None
   \<and> tex_target (fst (gst_gl_memory_pbo_alloc example_collaborators opengl2_context
              GST_GL_TEXTURE_TARGET_EXTERNAL_OES None rgba_64x64 0 0 initial_world))
       = GST_GL_TEXTURE_TARGET_EXTERNAL_OES
   \<and> CONTEXT_SUPPORTS_PBO_UPLOAD opengl2_context = False
   \<and> CONTEXT_SUPPORTS_PBO_DOWNLOAD opengl2_context = False"
  by (simp add: gst_gl_memory_pbo_alloc_def gl_mem_new_pbo gl_mem_new_fields
      example_collaborators_def opengl2_context_def USING_OPENGL_def
      CONTEXT_SUPPORTS_PBO_UPLOAD_def CONTEXT_SUPPORTS_PBO_DOWNLOAD_def
      gst_gl_context_check_gl_version_def del: not_None_eq)

text \<open>
  Claim C4, amended. The constructors create a staging buffer exactly when the parent's
  create has succeeded and \<^verbatim>\<open>USING_OPENGL || USING_OPENGL3 || USING_GLES3\<close> holds of the
  context, whatever the texture target. Absence of the staging buffer is a valid state: on
  a non-external object without one, a CPU-side map and a GPU-side read map are served by
  the parent allocator's map, a GPU-side map without read returns the handle, and unmap and
  the explicit download and upload transfers do nothing; no staging-buffer call is made.
\<close>

theorem staging_buffer_creation:
  "(pbo (fst (gst_gl_memory_pbo_alloc env ctx target params vinfo pl va w)) \<noteq> None \<longleftrightarrow>
      parent_create_result env (trace w) \<noteq> None
      \<and> (USING_OPENGL ctx \<or> USING_OPENGL3 ctx \<or> USING_GLES3 ctx))
   \<and> (pbo (fst (gst_gl_memory_pbo_wrapped_texture env ctx texture_id target vinfo pl va
                   user_data notify w)) \<noteq> None \<longleftrightarrow>
      USING_OPENGL ctx \<or> USING_OPENGL3 ctx \<or> USING_GLES3 ctx)
   \<and> (pbo gl_mem = None \<and> tex_target gl_mem \<noteq> GST_GL_TEXTURE_TARGET_EXTERNAL_OES \<longrightarrow>
        (GST_MAP_GL \<notin> map_flags minfo \<longrightarrow>
           gl_mem_map env gl_mem minfo w
             = (parent_map_result env (trace w @ [Call_alloc_data]), gl_mem, minfo,
                emit (Call_parent_map (map_flags minfo)) (emit Call_alloc_data w)))
        \<and> (GST_MAP_GL \<in> map_flags minfo \<and> GST_MAP_READ \<in> map_flags minfo \<longrightarrow>
           gl_mem_map env gl_mem minfo w
             = (parent_map_result env (trace w), gl_mem, minfo,
                emit (Call_parent_map (map_flags minfo)) w))
        \<and> (GST_MAP_GL \<in> map_flags minfo \<and> GST_MAP_READ \<notin> map_flags minfo \<longrightarrow>
           gl_mem_map env gl_mem minfo w = (TexIdRef (tex_id gl_mem), gl_mem, minfo, w))
        \<and> gl_mem_unmap gl_mem minfo w = (gl_mem, w)
        \<and> gst_gl_memory_pbo_download_transfer env gl_mem w = (gl_mem, w)
        \<and> gst_gl_memory_pbo_upload_transfer env gl_mem w = (gl_mem, w))"
proof -
  have a: "pbo (fst (gst_gl_memory_pbo_alloc env ctx target params vinfo pl va w)) \<noteq> None \<longleftrightarrow>
      parent_create_result env (trace w) \<noteq> None
      \<and> (USING_OPENGL ctx \<or> USING_OPENGL3 ctx \<or> USING_GLES3 ctx)"
    unfolding gst_gl_memory_pbo_alloc_def by (rule gl_mem_new_pbo)
  have z: "pbo (zeroed_GstGLMemoryPBO\<lparr>tex_id := texture_id, texture_wrapped := True\<rparr>) = None"
    by (simp add: zeroed_GstGLMemoryPBO_def)
  have b: "pbo (fst (gst_gl_memory_pbo_wrapped_texture env ctx texture_id target vinfo pl va
                   user_data notify w)) \<noteq> None \<longleftrightarrow>
      USING_OPENGL ctx \<or> USING_OPENGL3 ctx \<or> USING_GLES3 ctx"
    using gl_mem_init_pbo [OF z, of env ctx target None vinfo va pl user_data notify w]
    by (simp add: gst_gl_memory_pbo_wrapped_texture_def Let_def case_prod_beta
        del: not_None_eq)
  have c: "pbo gl_mem = None \<and> tex_target gl_mem \<noteq> GST_GL_TEXTURE_TARGET_EXTERNAL_OES \<longrightarrow>
        (GST_MAP_GL \<notin> map_flags minfo \<longrightarrow>
           gl_mem_map env gl_mem minfo w
             = (parent_map_result env (trace w @ [Call_alloc_data]), gl_mem, minfo,
                emit (Call_parent_map (map_flags minfo)) (emit Call_alloc_data w)))
        \<and> (GST_MAP_GL \<in> map_flags minfo \<and> GST_MAP_READ \<in> map_flags minfo \<longrightarrow>
           gl_mem_map env gl_mem minfo w
             = (parent_map_result env (trace w), gl_mem, minfo,
                emit (Call_parent_map (map_flags minfo)) w))
        \<and> (GST_MAP_GL \<in> map_flags minfo \<and> GST_MAP_READ \<notin> map_flags minfo \<longrightarrow>
           gl_mem_map env gl_mem minfo w = (TexIdRef (tex_id gl_mem), gl_mem, minfo, w))
        \<and> gl_mem_unmap gl_mem minfo w = (gl_mem, w)
        \<and> gst_gl_memory_pbo_download_transfer env gl_mem w = (gl_mem, w)
        \<and> gst_gl_memory_pbo_upload_transfer env gl_mem w = (gl_mem, w)"
    by (simp add: gl_mem_map_def gl_mem_map_cpu_access_def gl_mem_map_gpu_access_def
        parent_map_def gl_mem_unmap_def gl_mem_unmap_cpu_access_def
        gst_gl_memory_pbo_download_transfer_def gst_gl_context_thread_add_def
        download_transfer_def read_pixels_to_pbo_def gst_gl_memory_pbo_upload_transfer_def
        Let_def)
  from a b c show ?thesis by blast
qed

theorem staging_buffer_creation_witness:
  "pbo (fst (gst_gl_memory_pbo_alloc example_collaborators gles2_context
               GST_GL_TEXTURE_TARGET_2D None rgba_64x64 0 0 initial_world)) = None
   \<and> pbo (fst (gst_gl_memory_pbo_alloc example_collaborators gles3_context
               GST_GL_TEXTURE_TARGET_EXTERNAL_OES None rgba_64x64 0 0 initial_world)) \<noteq> None
   \<and> pbo (fst (gst_gl_memory_pbo_wrapped_texture example_collaborators opengl2_context 42
               GST_GL_TEXTURE_TARGET_EXTERNAL_OES rgba_64x64 0 0 0 0 initial_world)) \<noteq> None
   \<and> gl_mem_map example_collaborators
       ((example_mem gles2_context GST_GL_TEXTURE_TARGET_2D {})\<lparr>pbo := None\<rparr>)
       \<lparr>map_flags = {GST_MAP_READ}, map_user_data0 = None\<rparr> initial_world
     = (DataPtr 8192, (example_mem gles2_context GST_GL_TEXTURE_TARGET_2D {})\<lparr>pbo := None\<rparr>,
        \<lparr>map_flags = {GST_MAP_READ}, map_user_data0 = None\<rparr>,
        initial_world\<lparr>trace := [Call_alloc_data, Call_parent_map {GST_MAP_READ}]\<rparr>)
   \<and> gl_mem_map example_collaborators
       ((example_mem gles2_context GST_GL_TEXTURE_TARGET_2D {})\<lparr>pbo := None\<rparr>)
       \<lparr>map_flags = {GST_MAP_READ, GST_MAP_GL}, map_user_data0 = None\<rparr> initial_world
     = (DataPtr 8192, (example_mem gles2_context GST_GL_TEXTURE_TARGET_2D {})\<lparr>pbo := None\<rparr>,
        \<lparr>map_flags = {GST_MAP_READ, GST_MAP_GL}, map_user_data0 = None\<rparr>,
        initial_world\<lparr>trace := [Call_parent_map {GST_MAP_READ, GST_MAP_GL}]\<rparr>)
   \<and> gl_mem_map example_collaborators
       ((example_mem gles2_context GST_GL_TEXTURE_TARGET_2D {})\<lparr>pbo := None\<rparr>)
       \<lparr>map_flags = {GST_MAP_WRITE, GST_MAP_GL}, map_user_data0 = None\<rparr> initial_world
     = (TexIdRef 7, (example_mem gles2_context GST_GL_TEXTURE_TARGET_2D {})\<lparr>pbo := None\<rparr>,
        \<lparr>map_flags = {GST_MAP_WRITE, GST_MAP_GL}, map_user_data0 = None\<rparr>, initial_world)"
  using
    staging_buffer_creation [where env = example_collaborators and ctx = gles2_context
      and target = GST_GL_TEXTURE_TARGET_2D and params = None and vinfo = rgba_64x64
      and pl = 0 and va = 0 and w = initial_world
      and gl_mem = "(example_mem gles2_context GST_GL_TEXTURE_TARGET_2D {})\<lparr>pbo := None\<rparr>"
      and minfo = "\<lparr>map_flags = {GST_MAP_READ}, map_user_data0 = None\<rparr>"]
    staging_buffer_creation [where env = example_collaborators and ctx = gles2_context
      and target = GST_GL_TEXTURE_TARGET_2D and params = None and vinfo = rgba_64x64
      and pl = 0 and va = 0 and w = initial_world
      and gl_mem = "(example_mem gles2_context GST_GL_TEXTURE_TARGET_2D {})\<lparr>pbo := None\<rparr>"
      and minfo = "\<lparr>map_flags = {GST_MAP_READ, GST_MAP_GL}, map_user_data0 = None\<rparr>"]
    staging_buffer_creation [where env = example_collaborators and ctx = gles2_context
      and target = GST_GL_TEXTURE_TARGET_2D and params = None and vinfo = rgba_64x64
      and pl = 0 and va = 0 and w = initial_world
      and gl_mem = "(example_mem gles2_context GST_GL_TEXTURE_TARGET_2D {})\<lparr>pbo := None\<rparr>"
      and minfo = "\<lparr>map_flags = {GST_MAP_WRITE, GST_MAP_GL}, map_user_data0 = None\<rparr>"]
    staging_buffer_creation [where env = example_collaborators and ctx = gles3_context
      and target = GST_GL_TEXTURE_TARGET_EXTERNAL_OES and params = None and vinfo = rgba_64x64
      and pl = 0 and va = 0 and w = initial_world]
    staging_buffer_creation [where env = example_collaborators and ctx = opengl2_context
      and target = GST_GL_TEXTURE_TARGET_EXTERNAL_OES and texture_id = 42
      and vinfo = rgba_64x64 and pl = 0 and va = 0 and user_data = 0 and notify = 0
      and w = initial_world]
  by (simp add: example_collaborators_def gles2_context_def gles3_context_def
      opengl2_context_def USING_OPENGL_def
      USING_OPENGL3_def USING_GLES3_def gst_gl_context_check_gl_version_def example_mem_def
      emit_def initial_world_def del: not_None_eq)

subsection \<open>Wrapping CPU data\<close>

lemma gl_mem_new_created:
  assumes "pbo (fst (gl_mem_new env ctx target params vinfo pl va notify user_data w)) = Some b"
  shows "new_events w (snd (gl_mem_new env ctx target params vinfo pl va notify user_data w))
           = [Call_parent_create,
              Call_buffer_alloc GL_PIXEL_UNPACK_BUFFER GL_STREAM_DRAW
                (mem_size (fst (gl_mem_new env ctx target params vinfo pl va notify user_data w)))]
         \<and> buf_flags b = {} \<and> buf_size b = mem_size (fst (gl_mem_new env ctx target params vinfo pl va notify user_data w))"
  using assms
  by (auto simp: gl_mem_new_def gl_mem_init_def gst_gl_memory_init_def Let_def
      gl_mem_create_def parent_create_def gst_gl_buffer_alloc_def new_events_def
      zeroed_GstGLMemoryPBO_def split: prod.splits option.splits if_splits)

text \<open>
  Claim C6. Whenever a wrap-from-CPU-data constructor returns an object, the staging
  buffer's data pointer is the caller's pointer itself, nothing is copied (the only events
  of the call are the parent's create and the allocation of the staging buffer), and
  \<^verbatim>\<open>NEED_UPLOAD\<close> is set on the object and on its staging buffer. This holds for
  \<^verbatim>\<open>gst_gl_memory_pbo_wrapped\<close> and for \<^verbatim>\<open>_gl_mem_pbo_alloc\<close> with the \<^verbatim>\<open>WRAP_SYSMEM\<close> flag.
\<close>

theorem wrapped_data_points_at_caller_memory:
  "(gst_gl_memory_pbo_wrapped env ctx target vinfo pl va data user_data notify w = Inr (m, w') \<longrightarrow>
      (\<exists>b. pbo m = Some b \<and> buf_data b = data
            \<and> GST_GL_BASE_MEMORY_TRANSFER_NEED_UPLOAD \<in> buf_flags b)
      \<and> GST_GL_BASE_MEMORY_TRANSFER_NEED_UPLOAD \<in> mem_flags m
      \<and> new_events w w' = [Call_parent_create,
            Call_buffer_alloc GL_PIXEL_UNPACK_BUFFER GL_STREAM_DRAW (mem_size m)])
   \<and> (GST_GL_ALLOCATION_PARAMS_ALLOC_FLAG_WRAP_SYSMEM \<in> ap_alloc_flags params
       \<and> gl_mem_pbo_alloc env params w = Inr (Some m, w') \<longrightarrow>
      (\<exists>b. pbo m = Some b \<and> buf_data b = ap_wrapped_data params
            \<and> GST_GL_BASE_MEMORY_TRANSFER_NEED_UPLOAD \<in> buf_flags b)
      \<and> GST_GL_BASE_MEMORY_TRANSFER_NEED_UPLOAD \<in> mem_flags m
      \<and> new_events w w' = [Call_parent_create,
            Call_buffer_alloc GL_PIXEL_UNPACK_BUFFER GL_STREAM_DRAW (mem_size m)])"
proof (intro conjI impI)
  assume r: "gst_gl_memory_pbo_wrapped env ctx target vinfo pl va data user_data notify w
               = Inr (m, w')"
  obtain m0 w0 where n: "gl_mem_new env ctx target None vinfo va pl user_data notify w = (m0, w0)"
    by (cases "gl_mem_new env ctx target None vinfo va pl user_data notify w") auto
  from r n obtain b where b: "pbo m0 = Some b"
    by (auto simp: gst_gl_memory_pbo_wrapped_def split: option.splits)
  from gl_mem_new_created [of env ctx target None vinfo va pl user_data notify w b] n b
  have ev: "new_events w w0 = [Call_parent_create,
              Call_buffer_alloc GL_PIXEL_UNPACK_BUFFER GL_STREAM_DRAW (mem_size m0)]"
    by simp
  from r n b have m: "m = m0\<lparr>pbo := Some (b\<lparr>buf_data := data,
        buf_flags := insert GST_GL_BASE_MEMORY_TRANSFER_NEED_UPLOAD (buf_flags b)\<rparr>),
        mem_flags := insert GST_GL_BASE_MEMORY_TRANSFER_NEED_UPLOAD (mem_flags m0)\<rparr>"
    and w: "w' = w0"
    by (auto simp: gst_gl_memory_pbo_wrapped_def Let_def)
  show "\<exists>b. pbo m = Some b \<and> buf_data b = data
            \<and> GST_GL_BASE_MEMORY_TRANSFER_NEED_UPLOAD \<in> buf_flags b"
    by (simp add: m)
  show "GST_GL_BASE_MEMORY_TRANSFER_NEED_UPLOAD \<in> mem_flags m"
    by (simp add: m)
  show "new_events w w' = [Call_parent_create,
            Call_buffer_alloc GL_PIXEL_UNPACK_BUFFER GL_STREAM_DRAW (mem_size m)]"
    using ev by (simp add: m w)
next
  assume a: "GST_GL_ALLOCATION_PARAMS_ALLOC_FLAG_WRAP_SYSMEM \<in> ap_alloc_flags params
       \<and> gl_mem_pbo_alloc env params w = Inr (Some m, w')"
  then show "\<exists>b. pbo m = Some b \<and> buf_data b = ap_wrapped_data params
            \<and> GST_GL_BASE_MEMORY_TRANSFER_NEED_UPLOAD \<in> buf_flags b"
    by (auto simp: gl_mem_pbo_alloc_def Let_def split: if_splits prod.splits option.splits)
  from a show "GST_GL_BASE_MEMORY_TRANSFER_NEED_UPLOAD \<in> mem_flags m"
    by (auto simp: gl_mem_pbo_alloc_def Let_def split: if_splits prod.splits option.splits)
  from a show "new_events w w' = [Call_parent_create,
            Call_buffer_alloc GL_PIXEL_UNPACK_BUFFER GL_STREAM_DRAW (mem_size m)]"
    by (auto simp: gl_mem_pbo_alloc_def Let_def gl_mem_init_def gst_gl_memory_init_def
        gl_mem_create_def parent_create_def gst_gl_buffer_alloc_def new_events_def
        zeroed_GstGLMemoryPBO_def
        split: if_splits prod.splits option.splits)
qed


theorem wrapped_data_points_at_caller_memory_witness:
  "\<exists>m w' m2 w2.
      gst_gl_memory_pbo_wrapped example_collaborators gles3_context GST_GL_TEXTURE_TARGET_2D
        rgba_64x64 0 0 (DataPtr 1000) 0 0 initial_world = Inr (m, w')
      \<and> (\<exists>b. pbo m = Some b \<and> buf_data b = DataPtr 1000
             \<and> GST_GL_BASE_MEMORY_TRANSFER_NEED_UPLOAD \<in> buf_flags b)
      \<and> GST_GL_BASE_MEMORY_TRANSFER_NEED_UPLOAD \<in> mem_flags m
      \<and> new_events initial_world w'
          = [Call_parent_create,
             Call_buffer_alloc GL_PIXEL_UNPACK_BUFFER GL_STREAM_DRAW 16384]
      \<and> gl_mem_pbo_alloc example_collaborators
          \<lparr>ap_alloc_flags = {GST_GL_ALLOCATION_PARAMS_ALLOC_FLAG_VIDEO,
                             GST_GL_ALLOCATION_PARAMS_ALLOC_FLAG_WRAP_SYSMEM},
           ap_context = gles3_context, ap_alloc_params = None, ap_notify = 0,
           ap_user_data = 0, ap_gl_handle = 0, ap_wrapped_data = DataPtr 2000,
           ap_target = GST_GL_TEXTURE_TARGET_2D, ap_v_info = rgba_64x64, ap_plane = 0,
           ap_valign = 0\<rparr> initial_world = Inr (Some m2, w2)
      \<and> (\<exists>b. pbo m2 = Some b \<and> buf_data b = DataPtr 2000
             \<and> GST_GL_BASE_MEMORY_TRANSFER_NEED_UPLOAD \<in> buf_flags b)
      \<and> GST_GL_BASE_MEMORY_TRANSFER_NEED_UPLOAD \<in> mem_flags m2
      \<and> new_events initial_world w2
          = [Call_parent_create,
             Call_buffer_alloc GL_PIXEL_UNPACK_BUFFER GL_STREAM_DRAW 16384]"
proof -
  let ?p = "\<lparr>ap_alloc_flags = {GST_GL_ALLOCATION_PARAMS_ALLOC_FLAG_VIDEO,
                             GST_GL_ALLOCATION_PARAMS_ALLOC_FLAG_WRAP_SYSMEM},
           ap_context = gles3_context, ap_alloc_params = None, ap_notify = 0,
           ap_user_data = 0, ap_gl_handle = 0, ap_wrapped_data = DataPtr 2000,
           ap_target = GST_GL_TEXTURE_TARGET_2D, ap_v_info = rgba_64x64, ap_plane = 0,
           ap_valign = 0\<rparr>"
  have u: "USING_GLES3 gles3_context" "\<not> USING_OPENGL gles3_context"
    "\<not> USING_OPENGL3 gles3_context"
    by (simp_all add: USING_OPENGL_def USING_OPENGL3_def USING_GLES3_def
        gst_gl_context_check_gl_version_def gles3_context_def)
  have sz: "plane_data_size example_collaborators rgba_64x64 0 0 = 16384"
    by (simp add: example_collaborators_def get_plane_height_def rgba_64x64_def)
  have pc: "parent_create_result example_collaborators (trace initial_world) = Some 1"
    by (simp add: example_collaborators_def initial_world_def)
  obtain m w' where r:
    "gst_gl_memory_pbo_wrapped example_collaborators gles3_context GST_GL_TEXTURE_TARGET_2D
       rgba_64x64 0 0 (DataPtr 1000) 0 0 initial_world = Inr (m, w')"
    and s1: "mem_size m = 16384"
    using u sz pc
    by (simp add: gst_gl_memory_pbo_wrapped_def gl_mem_new_def gl_mem_init_def
        gst_gl_memory_init_def gl_mem_create_def parent_create_def gst_gl_buffer_alloc_def
        zeroed_GstGLMemoryPBO_def Let_def)
  obtain m2 w2 where r2: "gl_mem_pbo_alloc example_collaborators ?p initial_world
                            = Inr (Some m2, w2)"
    and s2: "mem_size m2 = 16384"
    using u sz pc
    by (simp add: gl_mem_pbo_alloc_def gl_mem_init_def
        gst_gl_memory_init_def gl_mem_create_def parent_create_def gst_gl_buffer_alloc_def
        zeroed_GstGLMemoryPBO_def Let_def)
  have fl: "GST_GL_ALLOCATION_PARAMS_ALLOC_FLAG_WRAP_SYSMEM \<in> ap_alloc_flags ?p" by simp
  from wrapped_data_points_at_caller_memory [where env = example_collaborators
      and ctx = gles3_context and target = GST_GL_TEXTURE_TARGET_2D and vinfo = rgba_64x64
      and pl = 0 and va = 0 and data = "DataPtr 1000" and user_data = 0 and notify = 0
      and w = initial_world and m = m and w' = w'] r s1
  have a: "(\<exists>b. pbo m = Some b \<and> buf_data b = DataPtr 1000
             \<and> GST_GL_BASE_MEMORY_TRANSFER_NEED_UPLOAD \<in> buf_flags b)
      \<and> GST_GL_BASE_MEMORY_TRANSFER_NEED_UPLOAD \<in> mem_flags m
      \<and> new_events initial_world w'
          = [Call_parent_create,
             Call_buffer_alloc GL_PIXEL_UNPACK_BUFFER GL_STREAM_DRAW 16384]"
    by simp
  from wrapped_data_points_at_caller_memory [where env = example_collaborators
      and w = initial_world and m = m2 and w' = w2 and params = ?p] r2 s2 fl
  have b: "(\<exists>b. pbo m2 = Some b \<and> buf_data b = DataPtr 2000
             \<and> GST_GL_BASE_MEMORY_TRANSFER_NEED_UPLOAD \<in> buf_flags b)
      \<and> GST_GL_BASE_MEMORY_TRANSFER_NEED_UPLOAD \<in> mem_flags m2
      \<and> new_events initial_world w2
          = [Call_parent_create,
             Call_buffer_alloc GL_PIXEL_UNPACK_BUFFER GL_STREAM_DRAW 16384]"
    by simp
  from r a r2 b show ?thesis by blast
qed

text \<open>
  Claim C9. Both wrap-from-CPU-data entry points store the caller's pointer through the
  staging buffer pointer before any test of it, so they end in a NULL dereference exactly
  when construction created no staging buffer, that is exactly when the parent's create
  failed or none of \<^verbatim>\<open>USING_OPENGL\<close>, \<^verbatim>\<open>USING_OPENGL3\<close>, \<^verbatim>\<open>USING_GLES3\<close> holds of the context.
\<close>

theorem wrapped_data_null_dereference:
  "(gst_gl_memory_pbo_wrapped env ctx target vinfo pl va data user_data notify w
      = Inl NULL_dereference
    \<longleftrightarrow> pbo (fst (gl_mem_new env ctx target None vinfo va pl user_data notify w)) = None)
   \<and> (pbo (fst (gl_mem_new env ctx target None vinfo va pl user_data notify w)) = None
    \<longleftrightarrow> \<not> (parent_create_result env (trace w) \<noteq> None
            \<and> (USING_OPENGL ctx \<or> USING_OPENGL3 ctx \<or> USING_GLES3 ctx)))
   \<and> (GST_GL_ALLOCATION_PARAMS_ALLOC_FLAG_VIDEO \<in> ap_alloc_flags params
       \<and> GST_GL_ALLOCATION_PARAMS_ALLOC_FLAG_WRAP_SYSMEM \<in> ap_alloc_flags params \<longrightarrow>
      (gl_mem_pbo_alloc env params w = Inl NULL_dereference
       \<longleftrightarrow> \<not> ((GST_GL_ALLOCATION_PARAMS_ALLOC_FLAG_WRAP_GPU_HANDLE \<in> ap_alloc_flags params
                 \<or> parent_create_result env (trace w) \<noteq> None)
               \<and> (USING_OPENGL (ap_context params) \<or> USING_OPENGL3 (ap_context params)
                    \<or> USING_GLES3 (ap_context params)))))"
proof (intro conjI impI)
  show "gst_gl_memory_pbo_wrapped env ctx target vinfo pl va data user_data notify w
      = Inl NULL_dereference
    \<longleftrightarrow> pbo (fst (gl_mem_new env ctx target None vinfo va pl user_data notify w)) = None"
    by (simp add: gst_gl_memory_pbo_wrapped_def Let_def case_prod_beta split: option.splits)
  show "pbo (fst (gl_mem_new env ctx target None vinfo va pl user_data notify w)) = None
    \<longleftrightarrow> \<not> (parent_create_result env (trace w) \<noteq> None
            \<and> (USING_OPENGL ctx \<or> USING_OPENGL3 ctx \<or> USING_GLES3 ctx))"
    using gl_mem_new_pbo [of env ctx target None vinfo va pl user_data notify w] by blast
next
  assume fl: "GST_GL_ALLOCATION_PARAMS_ALLOC_FLAG_VIDEO \<in> ap_alloc_flags params
       \<and> GST_GL_ALLOCATION_PARAMS_ALLOC_FLAG_WRAP_SYSMEM \<in> ap_alloc_flags params"
  let ?mem1 = "(if GST_GL_ALLOCATION_PARAMS_ALLOC_FLAG_WRAP_GPU_HANDLE \<in> ap_alloc_flags params
                then zeroed_GstGLMemoryPBO\<lparr>tex_id := ap_gl_handle params, texture_wrapped := True\<rparr>
                else zeroed_GstGLMemoryPBO)"
  have z: "pbo ?mem1 = None" by (simp add: zeroed_GstGLMemoryPBO_def)
  have tw: "texture_wrapped ?mem1
              \<longleftrightarrow> GST_GL_ALLOCATION_PARAMS_ALLOC_FLAG_WRAP_GPU_HANDLE \<in> ap_alloc_flags params"
    by (simp add: zeroed_GstGLMemoryPBO_def)
  from gl_mem_init_pbo [OF z, of env "ap_context params" "ap_target params"
      "ap_alloc_params params" "ap_v_info params" "ap_plane params" "ap_valign params"
      "ap_notify params" "ap_user_data params" w] tw
  have p: "pbo (fst (gl_mem_init env ?mem1 (ap_context params) (ap_target params)
                  (ap_alloc_params params) (ap_v_info params) (ap_plane params)
                  (ap_valign params) (ap_notify params) (ap_user_data params) w)) \<noteq> None
     \<longleftrightarrow> (GST_GL_ALLOCATION_PARAMS_ALLOC_FLAG_WRAP_GPU_HANDLE \<in> ap_alloc_flags params
                 \<or> parent_create_result env (trace w) \<noteq> None)
               \<and> (USING_OPENGL (ap_context params) \<or> USING_OPENGL3 (ap_context params)
                    \<or> USING_GLES3 (ap_context params))"
    by simp
  have "gl_mem_pbo_alloc env params w = Inl NULL_dereference
       \<longleftrightarrow> pbo (fst (gl_mem_init env ?mem1 (ap_context params) (ap_target params)
                  (ap_alloc_params params) (ap_v_info params) (ap_plane params)
                  (ap_valign params) (ap_notify params) (ap_user_data params) w)) = None"
    using fl
    by (simp add: gl_mem_pbo_alloc_def Let_def case_prod_beta split: option.splits)
  with p show "gl_mem_pbo_alloc env params w = Inl NULL_dereference
       \<longleftrightarrow> \<not> ((GST_GL_ALLOCATION_PARAMS_ALLOC_FLAG_WRAP_GPU_HANDLE \<in> ap_alloc_flags params
                 \<or> parent_create_result env (trace w) \<noteq> None)
               \<and> (USING_OPENGL (ap_context params) \<or> USING_OPENGL3 (ap_context params)
                    \<or> USING_GLES3 (ap_context params)))"
    by auto
qed

theorem wrapped_data_null_dereference_witness:
  "gst_gl_memory_pbo_wrapped example_collaborators gles2_context GST_GL_TEXTURE_TARGET_2D
     rgba_64x64 0 0 (DataPtr 1000) 0 0 initial_world = Inl NULL_dereference
   \<and> pbo (fst (gl_mem_new example_collaborators gles2_context GST_GL_TEXTURE_TARGET_2D None
              rgba_64x64 0 0 0 0 initial_world)) = None
   \<and> gl_mem_pbo_alloc example_collaborators
       \<lparr>ap_alloc_flags = {GST_GL_ALLOCATION_PARAMS_ALLOC_FLAG_VIDEO,
                          GST_GL_ALLOCATION_PARAMS_ALLOC_FLAG_WRAP_SYSMEM},
        ap_context = gles2_context, ap_alloc_params = None, ap_notify = 0, ap_user_data = 0,
        ap_gl_handle = 0, ap_wrapped_data = DataPtr 1000,
        ap_target = GST_GL_TEXTURE_TARGET_2D, ap_v_info = rgba_64x64, ap_plane = 0,
        ap_valign = 0\<rparr> initial_world = Inl NULL_dereference"
  using wrapped_data_null_dereference [where env = example_collaborators
      and ctx = gles2_context and target = GST_GL_TEXTURE_TARGET_2D and vinfo = rgba_64x64
      and pl = 0 and va = 0 and data = "DataPtr 1000" and user_data = 0 and notify = 0
      and w = initial_world and params =
       "\<lparr>ap_alloc_flags = {GST_GL_ALLOCATION_PARAMS_ALLOC_FLAG_VIDEO,
                          GST_GL_ALLOCATION_PARAMS_ALLOC_FLAG_WRAP_SYSMEM},
        ap_context = gles2_context, ap_alloc_params = None, ap_notify = 0, ap_user_data = 0,
        ap_gl_handle = 0, ap_wrapped_data = DataPtr 1000,
        ap_target = GST_GL_TEXTURE_TARGET_2D, ap_v_info = rgba_64x64, ap_plane = 0,
        ap_valign = 0\<rparr>"]
  by (simp add: gles2_context_def USING_OPENGL_def USING_OPENGL3_def USING_GLES3_def
      gst_gl_context_check_gl_version_def)

subsection \<open>Ownership of the texture handle\<close>

lemma gl_mem_init_keeps_handle:
  assumes "texture_wrapped mem"
  shows "texture_wrapped (fst (gl_mem_init env mem ctx target params vinfo pl va notify user_data w))
       \<and> tex_id (fst (gl_mem_init env mem ctx target params vinfo pl va notify user_data w)) = tex_id mem"
  using assms
  by (simp add: gl_mem_init_def gst_gl_memory_init_def gl_mem_create_def parent_create_def
      gst_gl_buffer_alloc_def Let_def case_prod_beta)

text \<open>
  Claim C7. The object returned by the wrap-texture-handle constructor has
  \<^verbatim>\<open>NEED_DOWNLOAD\<close> set, is marked \<^verbatim>\<open>texture_wrapped\<close> and holds the caller's handle, and
  its teardown deletes no texture; the object returned by the allocate constructor is not
  so marked, and its teardown deletes its texture handle, once.
\<close>

theorem wrapped_texture_ownership:
  "(case gst_gl_memory_pbo_wrapped_texture env ctx texture_id target vinfo pl va user_data
           notify w of
      (m, w1) \<Rightarrow>
        GST_GL_BASE_MEMORY_TRANSFER_NEED_DOWNLOAD \<in> mem_flags m
        \<and> texture_wrapped m \<and> tex_id m = texture_id
        \<and> filter is_texture_delete (new_events wd (snd (gl_mem_destroy m wd))) = [])
   \<and> (case gst_gl_memory_pbo_alloc env ctx target params vinfo pl va w of
      (m, w1) \<Rightarrow>
        texture_wrapped m = False
        \<and> filter is_texture_delete (new_events wd (snd (gl_mem_destroy m wd)))
            = [DeleteTextures (tex_id m)])"
proof -
  let ?mem = "zeroed_GstGLMemoryPBO\<lparr>tex_id := texture_id, texture_wrapped := True\<rparr>"
  have "texture_wrapped ?mem" by simp
  from gl_mem_init_keeps_handle [OF this, of env ctx target None vinfo va pl user_data notify w]
  have a: "case gst_gl_memory_pbo_wrapped_texture env ctx texture_id target vinfo pl va user_data
           notify w of
      (m, w1) \<Rightarrow>
        GST_GL_BASE_MEMORY_TRANSFER_NEED_DOWNLOAD \<in> mem_flags m
        \<and> texture_wrapped m \<and> tex_id m = texture_id
        \<and> filter is_texture_delete (new_events wd (snd (gl_mem_destroy m wd))) = []"
    by (auto simp: gst_gl_memory_pbo_wrapped_texture_def Let_def gl_mem_destroy_def
        parent_destroy_def new_events_def split: prod.splits option.splits)
  have b: "case gst_gl_memory_pbo_alloc env ctx target params vinfo pl va w of
      (m, w1) \<Rightarrow>
        texture_wrapped m = False
        \<and> filter is_texture_delete (new_events wd (snd (gl_mem_destroy m wd)))
            = [DeleteTextures (tex_id m)]"
    using gl_mem_new_fields(3) [of env ctx target params vinfo va pl 0 0 w]
    by (auto simp: gst_gl_memory_pbo_alloc_def Let_def gl_mem_destroy_def
        parent_destroy_def new_events_def split: prod.splits option.splits)
  from a b show ?thesis by blast
qed


theorem wrapped_texture_ownership_witness:
  "(case gst_gl_memory_pbo_wrapped_texture example_collaborators opengl_compat_context 42
           GST_GL_TEXTURE_TARGET_2D rgba_64x64 0 0 0 0 initial_world of
      (m, w1) \<Rightarrow>
        mem_flags m = {GST_GL_BASE_MEMORY_TRANSFER_NEED_DOWNLOAD}
        \<and> texture_wrapped m \<and> tex_id m = 42
        \<and> new_events w1 (snd (gl_mem_destroy m w1))
            = [Call_memory_unref 2, Call_parent_destroy])
   \<and> (case gst_gl_memory_pbo_alloc example_collaborators opengl_compat_context
           GST_GL_TEXTURE_TARGET_2D None rgba_64x64 0 0 initial_world of
      (m, w1) \<Rightarrow>
        texture_wrapped m = False \<and> tex_id m = 1
        \<and> new_events w1 (snd (gl_mem_destroy m w1))
            = [Call_memory_unref 2, Call_parent_destroy, DeleteTextures 1])"
  using wrapped_texture_ownership [where env = example_collaborators
      and ctx = opengl_compat_context and texture_id = 42 and target = GST_GL_TEXTURE_TARGET_2D
      and vinfo = rgba_64x64 and pl = 0 and va = 0 and user_data = 0 and notify = 0
      and w = initial_world and params = None and wd = initial_world]
  by (simp add: gst_gl_memory_pbo_wrapped_texture_def gst_gl_memory_pbo_alloc_def
      gl_mem_new_def gl_mem_init_def gst_gl_memory_init_def gl_mem_create_def
      parent_create_def gst_gl_buffer_alloc_def zeroed_GstGLMemoryPBO_def
      example_collaborators_def opengl_compat_context_def USING_OPENGL_def
      gst_gl_context_check_gl_version_def gl_mem_destroy_def parent_destroy_def
      new_events_def initial_world_def emit_def Let_def)

subsection \<open>Uploads on a GPU-side read map\<close>

lemma uploads_append [simp]: "uploads (xs @ ys) = uploads xs + uploads ys"
  by (simp add: uploads_def)

lemma uploads_Nil [simp]: "uploads [] = 0"
  by (simp add: uploads_def)

lemma uploads_Cons [simp]: "uploads (e # es) = (if is_upload e then 1 else 0) + uploads es"
  by (simp add: uploads_def)

lemma upload_pbo_memory_events:
  assumes "GST_GL_BASE_MEMORY_TRANSFER_NEED_UPLOAD \<in> mem_flags gl_mem"
    and "CONTEXT_SUPPORTS_PBO_UPLOAD (mem_context gl_mem)"
  shows "\<exists>evs. trace (upload_pbo_memory env gl_mem b w) = trace w @ evs \<and> uploads evs = 1
               \<and> filter is_parent_read_map evs = []"
  using assms
  by (simp add: upload_pbo_memory_def Let_def glPixelStorei_def)

lemma upload_pbo_memory_clear:
  assumes "GST_GL_BASE_MEMORY_TRANSFER_NEED_UPLOAD \<notin> mem_flags gl_mem"
  shows "upload_pbo_memory env gl_mem b w = w"
  using assms by (simp add: upload_pbo_memory_def)

lemma gl_mem_map_gpu_read_staged:
  assumes "tex_target gl_mem \<noteq> GST_GL_TEXTURE_TARGET_EXTERNAL_OES"
    and "pbo gl_mem = Some b"
    and "CONTEXT_SUPPORTS_PBO_UPLOAD (mem_context gl_mem)"
    and "GST_MAP_GL \<in> map_flags minfo" and "GST_MAP_READ \<in> map_flags minfo"
  shows "gl_mem_map env gl_mem minfo w =
           (case memory_map_result env (trace w) of
              None \<Rightarrow> (NULL, gl_mem, minfo, emit (Call_memory_map (buf_id b) {GST_MAP_READ, GST_MAP_GL}) w)
            | Some d \<Rightarrow>
                (TexIdRef (tex_id gl_mem), gl_mem, minfo,
                 emit (Call_memory_unmap (buf_id b))
                   (upload_pbo_memory env gl_mem b
                      (emit (Call_memory_map (buf_id b) {GST_MAP_READ, GST_MAP_GL}) w))))"
  using assms
  by (simp add: gl_mem_map_def gl_mem_map_gpu_access_def gst_memory_map_def
      gst_memory_unmap_def Let_def split: option.splits)


lemma gl_mem_map_gpu_read_fallback:
  assumes "tex_target gl_mem \<noteq> GST_GL_TEXTURE_TARGET_EXTERNAL_OES"
    and "pbo gl_mem = None \<or> \<not> CONTEXT_SUPPORTS_PBO_UPLOAD (mem_context gl_mem)"
    and "GST_MAP_GL \<in> map_flags minfo" and "GST_MAP_READ \<in> map_flags minfo"
  shows "gl_mem_map env gl_mem minfo w =
           (parent_map_result env (trace w), gl_mem, minfo,
            emit (Call_parent_map (map_flags minfo)) w)"
  using assms
  by (auto simp: gl_mem_map_def gl_mem_map_gpu_access_def parent_map_def split: option.splits)

text \<open>
  The hook \<^verbatim>\<open>_gl_mem_map\<close> itself leaves the object as it is on a GPU-side map, flags
  included: nothing in this file clears \<^verbatim>\<open>NEED_UPLOAD\<close>, and resolving it is the work of the
  mapping layer above the hook.
\<close>

lemma gl_mem_map_gpu_keeps_object:
  assumes "GST_MAP_GL \<in> map_flags minfo"
  shows "fst (snd (gl_mem_map env gl_mem minfo w)) = gl_mem"
  using assms
  by (auto simp: gl_mem_map_def gl_mem_map_gpu_access_def parent_map_def gst_memory_map_def
      Let_def split: option.splits)

text \<open>
  Claim C5, as stated: for every object with \<^verbatim>\<open>NEED_UPLOAD\<close> set, a GPU-side read map
  performs exactly one upload transfer. It fails on the code for an object with an external
  target: the map returns the handle at once and performs no upload, although
  \<^verbatim>\<open>NEED_UPLOAD\<close> is set. It also fails when the staging buffer cannot be mapped: the
  map then returns NULL and performs no upload.
\<close>

theorem gpu_read_map_external_target_counterexample:
  "GST_GL_BASE_MEMORY_TRANSFER_NEED_UPLOAD
     \<in> mem_flags (example_mem gles3_context GST_GL_TEXTURE_TARGET_EXTERNAL_OES
                    {GST_GL_BASE_MEMORY_TRANSFER_NEED_UPLOAD})
   \<and> gl_mem_map example_collaborators
       (example_mem gles3_context GST_GL_TEXTURE_TARGET_EXTERNAL_OES
          {GST_GL_BASE_MEMORY_TRANSFER_NEED_UPLOAD})
       \<lparr>map_flags = {GST_MAP_READ, GST_MAP_GL}, map_user_data0 = None\<rparr> initial_world
     = (TexIdRef 7,
        example_mem gles3_context GST_GL_TEXTURE_TARGET_EXTERNAL_OES
          {GST_GL_BASE_MEMORY_TRANSFER_NEED_UPLOAD},
        \<lparr>map_flags = {GST_MAP_READ, GST_MAP_GL}, map_user_data0 = None\<rparr>, initial_world)
   \<and> uploads (new_events initial_world
        (snd (snd (snd (base_memory_map example_collaborators
           (example_mem gles3_context GST_GL_TEXTURE_TARGET_EXTERNAL_OES
              {GST_GL_BASE_MEMORY_TRANSFER_NEED_UPLOAD})
           \<lparr>map_flags = {GST_MAP_READ, GST_MAP_GL}, map_user_data0 = None\<rparr>
           initial_world))))) = 0
   \<and> upload_transfers
        (example_mem gles3_context GST_GL_TEXTURE_TARGET_EXTERNAL_OES
           {GST_GL_BASE_MEMORY_TRANSFER_NEED_UPLOAD})
        (new_events initial_world
          (snd (snd (snd (base_memory_map example_collaborators
             (example_mem gles3_context GST_GL_TEXTURE_TARGET_EXTERNAL_OES
                {GST_GL_BASE_MEMORY_TRANSFER_NEED_UPLOAD})
             \<lparr>map_flags = {GST_MAP_READ, GST_MAP_GL}, map_user_data0 = None\<rparr>
             initial_world))))) = 0
   \<and> base_memory_map failing_map_collaborators
       (example_mem gles3_context GST_GL_TEXTURE_TARGET_2D
          {GST_GL_BASE_MEMORY_TRANSFER_NEED_UPLOAD})
       \<lparr>map_flags = {GST_MAP_READ, GST_MAP_GL}, map_user_data0 = None\<rparr> initial_world
     = (NULL,
        example_mem gles3_context GST_GL_TEXTURE_TARGET_2D
          {GST_GL_BASE_MEMORY_TRANSFER_NEED_UPLOAD},
        \<lparr>map_flags = {GST_MAP_READ, GST_MAP_GL}, map_user_data0 = None\<rparr>,
        emit (Call_memory_map 9 {GST_MAP_READ, GST_MAP_GL}) initial_world)"
  by (simp add: base_memory_map_def gl_mem_map_def gl_mem_map_gpu_access_def
      gst_memory_map_def example_mem_def example_pbo_def new_events_def upload_transfers_def
      failing_map_collaborators_def example_collaborators_def gles3_context_def
      CONTEXT_SUPPORTS_PBO_UPLOAD_def gst_gl_context_check_gl_version_def)

text \<open>
  Claim C5, amended. For an object with \<^verbatim>\<open>NEED_UPLOAD\<close> set whose target is not external,
  a GPU-side read map that returns a mapping performs exactly one upload transfer before it
  returns (from the staging buffer where there is one and the context supports staged
  upload, else the direct one of the parent's map) and leaves \<^verbatim>\<open>NEED_UPLOAD\<close> clear; a
  second GPU-side read map right after it performs no upload transfer.
\<close>

theorem gpu_read_map_uploads_once:
  assumes up: "GST_GL_BASE_MEMORY_TRANSFER_NEED_UPLOAD \<in> mem_flags gl_mem"
    and tgt: "tex_target gl_mem \<noteq> GST_GL_TEXTURE_TARGET_EXTERNAL_OES"
    and gl: "GST_MAP_GL \<in> map_flags minfo" and rd: "GST_MAP_READ \<in> map_flags minfo"
    and ok: "fst (base_memory_map env gl_mem minfo w) \<noteq> NULL"
  shows "case base_memory_map env gl_mem minfo w of
           (data, m, i, w') \<Rightarrow>
             upload_transfers gl_mem (new_events w w') = 1
             \<and> GST_GL_BASE_MEMORY_TRANSFER_NEED_UPLOAD \<notin> mem_flags m
             \<and> (case base_memory_map env m minfo w' of
                   (data', m', i', w'') \<Rightarrow> upload_transfers m (new_events w' w'') = 0)"
proof -
  let ?m1 = "gl_mem\<lparr>mem_flags := mem_flags gl_mem - {GST_GL_BASE_MEMORY_TRANSFER_NEED_UPLOAD}\<rparr>"
  have clr: "GST_GL_BASE_MEMORY_TRANSFER_NEED_UPLOAD \<notin> mem_flags ?m1" by simp
  have tgt1: "tex_target ?m1 \<noteq> GST_GL_TEXTURE_TARGET_EXTERNAL_OES" using tgt by simp
  show ?thesis
  proof (cases "pbo gl_mem = None \<or> \<not> CONTEXT_SUPPORTS_PBO_UPLOAD (mem_context gl_mem)")
    case True
    let ?w1 = "emit (Call_parent_map (map_flags minfo)) w"
    have fb: "gl_mem_map env gl_mem minfo w
                = (parent_map_result env (trace w), gl_mem, minfo, ?w1)"
      by (rule gl_mem_map_gpu_read_fallback [OF tgt True gl rd])
    from ok fb gl rd have nn: "parent_map_result env (trace w) \<noteq> NULL"
      by (simp add: base_memory_map_def split: if_splits)
    have first: "base_memory_map env gl_mem minfo w
                   = (parent_map_result env (trace w), ?m1, minfo, ?w1)"
      using fb nn gl rd by (simp add: base_memory_map_def)
    have n1: "upload_transfers gl_mem (new_events w ?w1) = 1"
      using up gl rd by (simp add: upload_transfers_def new_events_def)
    have True1: "pbo ?m1 = None \<or> \<not> CONTEXT_SUPPORTS_PBO_UPLOAD (mem_context ?m1)"
      using True by simp
    have fb2: "gl_mem_map env ?m1 minfo ?w1
                = (parent_map_result env (trace ?w1), ?m1, minfo,
                   emit (Call_parent_map (map_flags minfo)) ?w1)"
      by (rule gl_mem_map_gpu_read_fallback [OF tgt1 True1 gl rd])
    have second: "upload_transfers (fst (snd (base_memory_map env ?m1 minfo ?w1)))
                    (new_events ?w1 (snd (snd (snd (base_memory_map env ?m1 minfo ?w1))))) = 0
                  \<and> upload_transfers ?m1
                    (new_events ?w1 (snd (snd (snd (base_memory_map env ?m1 minfo ?w1))))) = 0"
      using fb2 by (simp add: base_memory_map_def upload_transfers_def new_events_def)
    show ?thesis
      using first n1 clr second by (simp add: case_prod_beta)
  next
    case False
    then obtain b where pb: "pbo gl_mem = Some b"
      and sup: "CONTEXT_SUPPORTS_PBO_UPLOAD (mem_context gl_mem)" by auto
    let ?mp = "Call_memory_map (buf_id b) {GST_MAP_READ, GST_MAP_GL}"
    let ?w1 = "emit (Call_memory_unmap (buf_id b)) (upload_pbo_memory env gl_mem b (emit ?mp w))"
    note st = gl_mem_map_gpu_read_staged [OF tgt pb sup gl rd, of env w]
    from ok st obtain d where d: "memory_map_result env (trace w) = Some d"
      by (cases "memory_map_result env (trace w)") (simp_all add: base_memory_map_def)
    have first: "base_memory_map env gl_mem minfo w = (TexIdRef (tex_id gl_mem), ?m1, minfo, ?w1)"
      using st d gl rd by (simp add: base_memory_map_def)
    obtain evs where evs: "trace (upload_pbo_memory env gl_mem b (emit ?mp w))
                             = trace (emit ?mp w) @ evs" "uploads evs = 1"
      "filter is_parent_read_map evs = []"
      using upload_pbo_memory_events [OF up sup] by blast
    have tr1: "trace ?w1 = trace w @ (?mp # evs @ [Call_memory_unmap (buf_id b)])"
      using evs by simp
    have n1: "upload_transfers gl_mem (new_events w ?w1) = 1"
      using evs(2,3) by (simp add: new_events_append [OF tr1] upload_transfers_def)
    have pb1: "pbo ?m1 = Some b" using pb by simp
    have sup1: "CONTEXT_SUPPORTS_PBO_UPLOAD (mem_context ?m1)" using sup by simp
    have second: "upload_transfers ?m1
                    (new_events ?w1 (snd (snd (snd (base_memory_map env ?m1 minfo ?w1))))) = 0"
    proof (cases "memory_map_result env (trace ?w1)")
      case None
      then show ?thesis
        using gl_mem_map_gpu_read_staged [OF tgt1 pb1 sup1 gl rd, of env ?w1]
        by (simp add: base_memory_map_def new_events_def upload_transfers_def)
    next
      case (Some d')
      then show ?thesis
        using gl_mem_map_gpu_read_staged [OF tgt1 pb1 sup1 gl rd, of env ?w1]
          upload_pbo_memory_clear [OF clr, of env b]
        by (simp add: base_memory_map_def new_events_def upload_transfers_def gl rd)
    qed
    show ?thesis
      using first n1 clr second by (simp add: case_prod_beta)
  qed
qed

theorem gpu_read_map_uploads_once_witness:
  "fst (base_memory_map example_collaborators
          (example_mem gles3_context GST_GL_TEXTURE_TARGET_2D
             {GST_GL_BASE_MEMORY_TRANSFER_NEED_UPLOAD})
          \<lparr>map_flags = {GST_MAP_READ, GST_MAP_GL}, map_user_data0 = None\<rparr> initial_world)
     = TexIdRef 7
   \<and> (case base_memory_map example_collaborators
          (example_mem gles3_context GST_GL_TEXTURE_TARGET_2D
             {GST_GL_BASE_MEMORY_TRANSFER_NEED_UPLOAD})
          \<lparr>map_flags = {GST_MAP_READ, GST_MAP_GL}, map_user_data0 = None\<rparr> initial_world of
        (data, m, i, w') \<Rightarrow>
          upload_transfers
            (example_mem gles3_context GST_GL_TEXTURE_TARGET_2D
               {GST_GL_BASE_MEMORY_TRANSFER_NEED_UPLOAD}) (new_events initial_world w') = 1
          \<and> GST_GL_BASE_MEMORY_TRANSFER_NEED_UPLOAD \<notin> mem_flags m
          \<and> (case base_memory_map example_collaborators m
                      \<lparr>map_flags = {GST_MAP_READ, GST_MAP_GL}, map_user_data0 = None\<rparr> w' of
                (data', m', i', w'') \<Rightarrow> upload_transfers m (new_events w' w'') = 0))
   \<and> fst (base_memory_map example_collaborators
          (example_mem gles2_context GST_GL_TEXTURE_TARGET_2D
             {GST_GL_BASE_MEMORY_TRANSFER_NEED_UPLOAD})
          \<lparr>map_flags = {GST_MAP_READ, GST_MAP_GL}, map_user_data0 = None\<rparr> initial_world)
     = DataPtr 8192
   \<and> (case base_memory_map example_collaborators
          (example_mem gles2_context GST_GL_TEXTURE_TARGET_2D
             {GST_GL_BASE_MEMORY_TRANSFER_NEED_UPLOAD})
          \<lparr>map_flags = {GST_MAP_READ, GST_MAP_GL}, map_user_data0 = None\<rparr> initial_world of
        (data, m, i, w') \<Rightarrow>
          upload_transfers
            (example_mem gles2_context GST_GL_TEXTURE_TARGET_2D
               {GST_GL_BASE_MEMORY_TRANSFER_NEED_UPLOAD}) (new_events initial_world w') = 1
          \<and> GST_GL_BASE_MEMORY_TRANSFER_NEED_UPLOAD \<notin> mem_flags m
          \<and> (case base_memory_map example_collaborators m
                      \<lparr>map_flags = {GST_MAP_READ, GST_MAP_GL}, map_user_data0 = None\<rparr> w' of
                (data', m', i', w'') \<Rightarrow> upload_transfers m (new_events w' w'') = 0))"
proof -
  let ?i = "\<lparr>map_flags = {GST_MAP_READ, GST_MAP_GL}, map_user_data0 = None\<rparr>"
  let ?s = "example_mem gles3_context GST_GL_TEXTURE_TARGET_2D
              {GST_GL_BASE_MEMORY_TRANSFER_NEED_UPLOAD}"
  let ?f = "example_mem gles2_context GST_GL_TEXTURE_TARGET_2D
              {GST_GL_BASE_MEMORY_TRANSFER_NEED_UPLOAD}"
  have fl: "GST_MAP_GL \<in> map_flags ?i" "GST_MAP_READ \<in> map_flags ?i" by simp_all
  have ups: "GST_GL_BASE_MEMORY_TRANSFER_NEED_UPLOAD \<in> mem_flags ?s"
    and tgs: "tex_target ?s \<noteq> GST_GL_TEXTURE_TARGET_EXTERNAL_OES"
    and pbs: "pbo ?s = Some example_pbo"
    and upf: "GST_GL_BASE_MEMORY_TRANSFER_NEED_UPLOAD \<in> mem_flags ?f"
    and tgf: "tex_target ?f \<noteq> GST_GL_TEXTURE_TARGET_EXTERNAL_OES"
    by (simp_all add: example_mem_def)
  have sup: "CONTEXT_SUPPORTS_PBO_UPLOAD (mem_context ?s)"
    by (simp add: CONTEXT_SUPPORTS_PBO_UPLOAD_def gst_gl_context_check_gl_version_def
        gles3_context_def example_mem_def)
  have nsup: "pbo ?f = None \<or> \<not> CONTEXT_SUPPORTS_PBO_UPLOAD (mem_context ?f)"
    by (simp add: CONTEXT_SUPPORTS_PBO_UPLOAD_def gst_gl_context_check_gl_version_def
        gles2_context_def example_mem_def)
  have rs: "fst (base_memory_map example_collaborators ?s ?i initial_world) = TexIdRef 7"
    using gl_mem_map_gpu_read_staged [OF tgs pbs sup fl, of example_collaborators initial_world]
    by (simp add: base_memory_map_def example_collaborators_def example_mem_def)
  have rf: "fst (base_memory_map example_collaborators ?f ?i initial_world) = DataPtr 8192"
    using gl_mem_map_gpu_read_fallback [OF tgf nsup fl, of example_collaborators initial_world]
    by (simp add: base_memory_map_def example_collaborators_def)
  have oks: "fst (base_memory_map example_collaborators ?s ?i initial_world) \<noteq> NULL"
    by (simp add: rs)
  have okf: "fst (base_memory_map example_collaborators ?f ?i initial_world) \<noteq> NULL"
    by (simp add: rf)
  show ?thesis
    using gpu_read_map_uploads_once [OF ups tgs fl oks]
      gpu_read_map_uploads_once [OF upf tgf fl okf] rs rf
    by (simp only: simp_thms)
qed

subsection \<open>Copying a memory\<close>

text \<open>
  Claim C10, as stated: for a non-external object every copy request with a nonzero offset
  is served by the system-memory fallback copy. It fails on the code for a negative offset:
  the test is \<^verbatim>\<open>offset > 0\<close>, so with offset -1 and the full size the copy takes the GPU path
  (\<^verbatim>\<open>gst_gl_memory_copy_into\<close>) and the fallback is not called.
\<close>

theorem gl_mem_copy_negative_offset_counterexample:
  "tex_target (example_mem gles3_context GST_GL_TEXTURE_TARGET_2D {})
     \<noteq> GST_GL_TEXTURE_TARGET_EXTERNAL_OES
   \<and> (- 1 :: gssize) \<noteq> 0
   \<and> trace (snd (gl_mem_copy example_collaborators
        (example_mem gles3_context GST_GL_TEXTURE_TARGET_2D {}) (- 1) 16384 initial_world))
     = [Call_parent_create,
        Call_buffer_alloc GL_PIXEL_UNPACK_BUFFER GL_STREAM_DRAW 16384,
        Call_memory_map 1 {GST_MAP_WRITE, GST_MAP_GL},
        Call_copy_into 1 GST_GL_TEXTURE_TARGET_2D GST_VIDEO_GL_TEXTURE_TYPE_RGBA 64 64,
        Call_memory_unmap 1]"
  by (simp add: gl_mem_copy_def gl_mem_new_def gl_mem_init_def gst_gl_memory_init_def
      gl_mem_create_def parent_create_def gst_gl_buffer_alloc_def zeroed_GstGLMemoryPBO_def
      example_mem_def example_collaborators_def gles3_context_def initial_world_def
      USING_OPENGL_def USING_OPENGL3_def USING_GLES3_def gst_gl_context_check_gl_version_def
      GL_MEM_HEIGHT_def get_plane_height_def rgba_64x64_def word_sless_alt emit_def Let_def)


text \<open>
  Claim C10, amended. For an object with an external target the memory copy returns NULL
  and does nothing; for any other object a copy request with a positive offset, or with a
  size below the object's size in the unsigned comparison the code makes, returns what the
  system-memory fallback copy returns, and the fallback call is the only event.
\<close>

theorem gl_mem_copy_dispatch:
  "(tex_target src = GST_GL_TEXTURE_TARGET_EXTERNAL_OES \<longrightarrow>
      gl_mem_copy env src offset sz w = (CopyNULL, w))
   \<and> (tex_target src \<noteq> GST_GL_TEXTURE_TARGET_EXTERNAL_OES
       \<and> (0 <s offset \<or> sz < mem_size src) \<longrightarrow>
      gl_mem_copy env src offset sz w
        = (CopyFallback (fallback_mem_copy_result env (trace w)),
           emit (Call_fallback_mem_copy offset sz) w))"
  by (simp add: gl_mem_copy_def)

theorem gl_mem_copy_dispatch_witness:
  "gl_mem_copy example_collaborators
     (example_mem gles3_context GST_GL_TEXTURE_TARGET_EXTERNAL_OES {}) 0 16384 initial_world
   = (CopyNULL, initial_world)
   \<and> gl_mem_copy example_collaborators
       (example_mem gles3_context GST_GL_TEXTURE_TARGET_2D {}) 1 16384 initial_world
     = (CopyFallback (DataPtr 12288), emit (Call_fallback_mem_copy 1 16384) initial_world)
   \<and> gl_mem_copy example_collaborators
       (example_mem gles3_context GST_GL_TEXTURE_TARGET_2D {}) 0 16383 initial_world
     = (CopyFallback (DataPtr 12288), emit (Call_fallback_mem_copy 0 16383) initial_world)"
  using
    gl_mem_copy_dispatch [where env = example_collaborators and w = initial_world
      and src = "example_mem gles3_context GST_GL_TEXTURE_TARGET_EXTERNAL_OES {}"
      and offset = 0 and sz = 16384]
    gl_mem_copy_dispatch [where env = example_collaborators and w = initial_world
      and src = "example_mem gles3_context GST_GL_TEXTURE_TARGET_2D {}"
      and offset = 1 and sz = 16384]
    gl_mem_copy_dispatch [where env = example_collaborators and w = initial_world
      and src = "example_mem gles3_context GST_GL_TEXTURE_TARGET_2D {}"
      and offset = 0 and sz = 16383]
  by (simp add: example_mem_def example_collaborators_def word_sless_alt)

end
